theory Spec2Isabelle
  imports Complex_Main
begin

section \<open>Data model (types.ts)\<close>

text \<open>
  A JavaScript \<open>number\<close> that holds money, a price, a rate or a progress value is a
  \<open>real\<close>: arithmetic is exact, so rounding, \<open>NaN\<close> and the infinities of IEEE doubles are
  outside the model. A \<open>number\<close> that only ever holds a whole count (a quantity, a level,
  a day) is an \<open>int\<close>. A property access on \<open>undefined\<close> throws a \<open>TypeError\<close>; a function
  that can throw returns an \<open>option\<close> and \<open>None\<close> is the throw.
\<close>

datatype CommodityCategory = ENERGY | METAL | AGRICULTURE | LIVESTOCK

text \<open>The type \<open>CommodityCategory | 'ALL'\<close> of an event's category; \<open>ALL_c\<close> is \<open>'ALL'\<close>.\<close>

datatype EventCategory = Category CommodityCategory | ALL_c

record GlobalEvent =
  name_e :: string
  description :: string
  category_e :: EventCategory
  multiplier :: real
  duration :: int
  remainingDays :: int

text \<open>The field \<open>icon\<close> of a commodity is an emoji that only the view reads; it is left out.\<close>

record Commodity =
  id_c :: string
  name_c :: string
  category_c :: CommodityCategory
  basePrice :: real
  volatility :: real
  productionCost :: real
  productionYield :: int

datatype Trend = up | down | stable

record MarketPrice =
  id_p :: string
  currentPrice :: real
  history :: "real list"
  trend :: Trend

record InventoryItem =
  commodityId_i :: string
  quantity :: int

record ProductionFacility =
  commodityId_f :: string
  level :: int
  isProducing :: bool
  progress :: real

record DailyLedger =
  sales :: real
  purchases :: real
  productionCosts :: real
  net :: real

record LifetimeStats =
  totalSales :: real
  totalMarketPurchases :: real
  totalProductionCosts :: real
  totalConstruction :: real
  totalUpgrades :: real
  totalInterestPaid :: real
  totalTaxesPaid :: real

record GameState =
  cash :: real
  debt :: real
  day :: int
  cycleProgress :: int
  inventory :: "InventoryItem list"
  facilities :: "ProductionFacility list"
  prices :: "string \<rightharpoonup> MarketPrice"
  lastLedger :: DailyLedger
  lifetime :: LifetimeStats
  activeEvent :: "GlobalEvent option"
  taxRate :: real
  nextTaxDay :: int

text \<open>
  The state of the \<open>App\<close> component that the tick and the action handlers read and write:
  the game state, the three cycle counters kept in refs, the two gating flags and the
  amount chosen on the repayment slider. Variant B of \<open>App\<close> has no \<open>isPaused\<close> flag; its
  functions never read the field. The tax notification (\<open>lastTaxPaid\<close>, \<open>showTaxAlert\<close>)
  and its timer belong to the view and are not part of the model.
\<close>

record App =
  gameState :: GameState
  cyclePurchasesRef :: real
  cycleSalesRef :: real
  cycleProductionRef :: real
  isGameOver :: bool
  isPaused :: bool
  repayAmount :: real

section \<open>Constants (constants.ts and the head of App.tsx)\<close>

definition COMMODITIES :: "Commodity list" where
  "COMMODITIES =
    [\<lparr>id_c = ''oil'', name_c = ''Crude Oil'', category_c = ENERGY, basePrice = 80,
       volatility = 15 / 100, productionCost = 50, productionYield = 10\<rparr>,
     \<lparr>id_c = ''gas'', name_c = ''Natural Gas'', category_c = ENERGY, basePrice = 4,
       volatility = 25 / 100, productionCost = 2, productionYield = 50\<rparr>,
     \<lparr>id_c = ''gold'', name_c = ''Gold'', category_c = METAL, basePrice = 2000,
       volatility = 5 / 100, productionCost = 1500, productionYield = 1\<rparr>,
     \<lparr>id_c = ''steel'', name_c = ''Steel'', category_c = METAL, basePrice = 600,
       volatility = 10 / 100, productionCost = 400, productionYield = 5\<rparr>,
     \<lparr>id_c = ''wheat'', name_c = ''Wheat'', category_c = AGRICULTURE, basePrice = 250,
       volatility = 12 / 100, productionCost = 150, productionYield = 20\<rparr>,
     \<lparr>id_c = ''corn'', name_c = ''Corn'', category_c = AGRICULTURE, basePrice = 180,
       volatility = 10 / 100, productionCost = 100, productionYield = 25\<rparr>,
     \<lparr>id_c = ''beef'', name_c = ''Beef'', category_c = LIVESTOCK, basePrice = 450,
       volatility = 8 / 100, productionCost = 300, productionYield = 8\<rparr>,
     \<lparr>id_c = ''pork'', name_c = ''Pork'', category_c = LIVESTOCK, basePrice = 320,
       volatility = 9 / 100, productionCost = 200, productionYield = 12\<rparr>]"

definition INITIAL_CASH :: real where
  "INITIAL_CASH = 5000"

definition DAILY_INTEREST_RATE :: real where
  "DAILY_INTEREST_RATE = 15 / 1000"

definition INITIAL_TAX_RATE_A :: real where
  "INITIAL_TAX_RATE_A = 15 / 100"

definition INITIAL_TAX_RATE_B :: real where
  "INITIAL_TAX_RATE_B = 20 / 100"

definition TAX_CYCLE :: int where
  "TAX_CYCLE = 30"

text \<open>An entry of the pool is a \<open>GlobalEvent\<close> without \<open>duration\<close> and \<open>remainingDays\<close>.\<close>

record EventTemplate =
  name_t :: string
  description_t :: string
  category_t :: EventCategory
  multiplier_t :: real

definition EVENTS_POOL :: "EventTemplate list" where
  "EVENTS_POOL =
    [\<lparr>name_t = ''OPEC Production Cut'',
       description_t = ''Energy prices surge as oil supply is restricted.'',
       category_t = Category ENERGY, multiplier_t = 21 / 10\<rparr>,
     \<lparr>name_t = ''Global Drought'',
       description_t = ''Crop failures leading to massive grain shortages.'',
       category_t = Category AGRICULTURE, multiplier_t = 18 / 10\<rparr>,
     \<lparr>name_t = ''Financial Safe Haven'',
       description_t = ''Investors rush to precious metals amid uncertainty.'',
       category_t = Category METAL, multiplier_t = 16 / 10\<rparr>,
     \<lparr>name_t = ''Livestock Epidemic'',
       description_t = ''Supply chain collapse in meat production.'',
       category_t = Category LIVESTOCK, multiplier_t = 23 / 10\<rparr>,
     \<lparr>name_t = ''Technological Breakthrough'',
       description_t = ''Efficiency gains lead to market surplus and price drops.'',
       category_t = ALL_c, multiplier_t = 5 / 10\<rparr>,
     \<lparr>name_t = ''Trade War Escalation'',
       description_t = ''Global tariffs crush industrial demand.'',
       category_t = Category METAL, multiplier_t = 6 / 10\<rparr>,
     \<lparr>name_t = ''Energy Discovery'',
       description_t = ''New shale reserves discovered, energy prices tank.'',
       category_t = Category ENERGY, multiplier_t = 4 / 10\<rparr>]"

text \<open>\<open>COMMODITIES.find(c => c.id === id)\<close>; \<open>None\<close> is \<open>undefined\<close>.\<close>

definition findCommodity :: "string \<Rightarrow> Commodity option" where
  "findCommodity i = find (\<lambda>c. id_c c = i) COMMODITIES"

section \<open>Initial state\<close>

fun initialPrices :: "Commodity list \<Rightarrow> (string \<rightharpoonup> MarketPrice) \<Rightarrow> (string \<rightharpoonup> MarketPrice)" where
  "initialPrices [] m = m"
| "initialPrices (c # cs) m =
     initialPrices cs
       (m(id_c c \<mapsto> \<lparr>id_p = id_c c, currentPrice = basePrice c, history = [basePrice c],
                      trend = stable\<rparr>))"

definition initialGameState :: "real \<Rightarrow> GameState" where
  "initialGameState rate =
     \<lparr>cash = INITIAL_CASH, debt = 0, day = 1, cycleProgress = 0,
      inventory = map (\<lambda>c. \<lparr>commodityId_i = id_c c, quantity = 0\<rparr>) COMMODITIES,
      facilities = [],
      prices = initialPrices COMMODITIES Map.empty,
      lastLedger = \<lparr>sales = 0, purchases = 0, productionCosts = 0, net = 0\<rparr>,
      lifetime = \<lparr>totalSales = 0, totalMarketPurchases = 0, totalProductionCosts = 0,
                  totalConstruction = 0, totalUpgrades = 0, totalInterestPaid = 0,
                  totalTaxesPaid = 0\<rparr>,
      activeEvent = None, taxRate = rate, nextTaxDay = TAX_CYCLE\<rparr>"

definition initialApp :: "real \<Rightarrow> App" where
  "initialApp rate =
     \<lparr>gameState = initialGameState rate, cyclePurchasesRef = 0, cycleSalesRef = 0,
      cycleProductionRef = 0, isGameOver = False, isPaused = False, repayAmount = 0\<rparr>"

section \<open>Player actions\<close>

subsection \<open>handleTrade\<close>

text \<open>
  The updater passed to \<open>setGameState\<close>, with its writes to the cycle refs. It is the same
  text in both variants. \<open>prev.prices[id].currentPrice\<close> throws when \<open>id\<close> has no price.
\<close>

definition tradeUpdater :: "string \<Rightarrow> int \<Rightarrow> App \<Rightarrow> App option" where
  "tradeUpdater i q app =
     (let prev = gameState app in
      case prices prev i of
        None \<Rightarrow> None
      | Some mp \<Rightarrow>
          let price = currentPrice mp;
              totalCost = of_int q * price
          in if q > 0 \<and> cash prev < totalCost then Some app
             else
               let currentItem = find (\<lambda>it. commodityId_i it = i) (inventory prev)
               in if q < 0 \<and> (case currentItem of None \<Rightarrow> True
                                | Some it \<Rightarrow> quantity it < \<bar>q\<bar>)
                  then Some app
                  else Some (app
                    \<lparr>cyclePurchasesRef :=
                        (if q > 0 then cyclePurchasesRef app + totalCost
                         else cyclePurchasesRef app),
                      cycleSalesRef :=
                        (if q > 0 then cycleSalesRef app
                         else cycleSalesRef app + \<bar>totalCost\<bar>),
                      gameState := prev
                        \<lparr>cash := cash prev - totalCost,
                          inventory :=
                            map (\<lambda>item. if commodityId_i item = i
                                        then item\<lparr>quantity := quantity item + q\<rparr>
                                        else item) (inventory prev),
                          lifetime := (lifetime prev)
                            \<lparr>totalSales :=
                                (if q < 0 then totalSales (lifetime prev) + \<bar>totalCost\<bar>
                                 else totalSales (lifetime prev)),
                              totalMarketPurchases :=
                                (if q > 0 then totalMarketPurchases (lifetime prev) + totalCost
                                 else totalMarketPurchases (lifetime prev))\<rparr>\<rparr>\<rparr>))"

definition handleTradeA :: "string \<Rightarrow> int \<Rightarrow> App \<Rightarrow> App option" where
  "handleTradeA i q app =
     (if isGameOver app \<or> isPaused app then Some app else tradeUpdater i q app)"

definition handleTradeB :: "string \<Rightarrow> int \<Rightarrow> App \<Rightarrow> App option" where
  "handleTradeB i q app =
     (if isGameOver app then Some app else tradeUpdater i q app)"

text \<open>The quantity the trade check reads: that of the first inventory item of the commodity.\<close>

definition owned :: "GameState \<Rightarrow> string \<Rightarrow> int option" where
  "owned s i = map_option quantity (find (\<lambda>it. commodityId_i it = i) (inventory s))"

subsection \<open>Facilities\<close>

text \<open>
  \<open>handleUnlockFacility\<close>. The commodity is looked up and its \<open>basePrice\<close> read before the
  updater runs, so an unknown id throws. Variant A returns at once when paused; variant B
  has no pause.
\<close>

definition unlockUpdater :: "string \<Rightarrow> real \<Rightarrow> GameState \<Rightarrow> GameState" where
  "unlockUpdater i cost prev =
     (if cash prev < cost \<or> (\<exists>f \<in> set (facilities prev). commodityId_f f = i) then prev
      else prev
        \<lparr>cash := cash prev - cost,
          facilities := facilities prev @
            [\<lparr>commodityId_f = i, level = 1, isProducing = True, progress = 0\<rparr>],
          lifetime := (lifetime prev)
            \<lparr>totalConstruction := totalConstruction (lifetime prev) + cost\<rparr>\<rparr>)"

definition handleUnlockFacilityA :: "string \<Rightarrow> App \<Rightarrow> App option" where
  "handleUnlockFacilityA i app =
     (if isPaused app then Some app
      else case findCommodity i of
        None \<Rightarrow> None
      | Some commodity \<Rightarrow>
          Some (app\<lparr>gameState := unlockUpdater i (basePrice commodity * 25) (gameState app)\<rparr>))"

definition handleUnlockFacilityB :: "string \<Rightarrow> App \<Rightarrow> App option" where
  "handleUnlockFacilityB i app =
     (case findCommodity i of
        None \<Rightarrow> None
      | Some commodity \<Rightarrow>
          Some (app\<lparr>gameState := unlockUpdater i (basePrice commodity * 25) (gameState app)\<rparr>))"

text \<open>
  \<open>handleUpgradeFacility\<close>: no facility returns \<open>prev\<close> before the commodity is looked up.
  \<open>Math.pow(1.8, facility.level)\<close> is the integer power \<open>powi\<close>.
\<close>

definition upgradeUpdater :: "string \<Rightarrow> GameState \<Rightarrow> GameState option" where
  "upgradeUpdater i prev =
     (case find (\<lambda>f. commodityId_f f = i) (facilities prev) of
        None \<Rightarrow> Some prev
      | Some facility \<Rightarrow>
          (case findCommodity i of
             None \<Rightarrow> None
           | Some commodity \<Rightarrow>
               let upgradeCost =
                     real_of_int \<lfloor>basePrice commodity * 25 * ((18 / 10) powi level facility)\<rfloor>
               in if cash prev < upgradeCost then Some prev
                  else Some (prev
                    \<lparr>cash := cash prev - upgradeCost,
                      facilities :=
                        map (\<lambda>f. if commodityId_f f = i then f\<lparr>level := level f + 1\<rparr> else f)
                          (facilities prev),
                      lifetime := (lifetime prev)
                        \<lparr>totalUpgrades := totalUpgrades (lifetime prev) + upgradeCost\<rparr>\<rparr>)))"

definition handleUpgradeFacilityA :: "string \<Rightarrow> App \<Rightarrow> App option" where
  "handleUpgradeFacilityA i app =
     (if isPaused app then Some app
      else map_option (\<lambda>s. app\<lparr>gameState := s\<rparr>) (upgradeUpdater i (gameState app)))"

definition handleUpgradeFacilityB :: "string \<Rightarrow> App \<Rightarrow> App option" where
  "handleUpgradeFacilityB i app =
     map_option (\<lambda>s. app\<lparr>gameState := s\<rparr>) (upgradeUpdater i (gameState app))"

subsection \<open>Credit\<close>

text \<open>
  \<open>takeLoan\<close>. Variant A tests the debt of the rendered state and the pause flag before
  it updates; variant B updates with no test.
\<close>

definition loanUpdater :: "real \<Rightarrow> GameState \<Rightarrow> GameState" where
  "loanUpdater amount prev = prev\<lparr>cash := cash prev + amount, debt := debt prev + amount\<rparr>"

definition takeLoanA :: "real \<Rightarrow> App \<Rightarrow> App" where
  "takeLoanA amount app =
     (if debt (gameState app) > 0 \<or> isPaused app then app
      else app\<lparr>gameState := loanUpdater amount (gameState app)\<rparr>)"

definition takeLoanB :: "real \<Rightarrow> App \<Rightarrow> App" where
  "takeLoanB amount app = app\<lparr>gameState := loanUpdater amount (gameState app)\<rparr>"

text \<open>
  \<open>handleRepay\<close> takes the amount from the component state \<open>repayAmount\<close> (set by the slider)
  and resets it to 0 afterwards.
\<close>

definition repayUpdater :: "real \<Rightarrow> GameState \<Rightarrow> GameState" where
  "repayUpdater amount prev = prev\<lparr>cash := cash prev - amount, debt := debt prev - amount\<rparr>"

definition handleRepayA :: "App \<Rightarrow> App" where
  "handleRepayA app =
     (if isPaused app then app
      else app\<lparr>gameState := repayUpdater (repayAmount app) (gameState app), repayAmount := 0\<rparr>)"

definition handleRepayB :: "App \<Rightarrow> App" where
  "handleRepayB app =
     app\<lparr>gameState := repayUpdater (repayAmount app) (gameState app), repayAmount := 0\<rparr>"

text \<open>\<open>maxRepayable\<close>, the upper bound of the repayment slider.\<close>

definition maxRepayable :: "App \<Rightarrow> real" where
  "maxRepayable app = min (cash (gameState app)) (debt (gameState app))"

text \<open>
  The \<open>onChange\<close> of the repayment slider stores the chosen value in \<open>repayAmount\<close>. The
  slider offers the values from 0 to \<open>maxRepayable\<close> of the state that was rendered; the
  stored value stays as it is when cash or debt change afterwards.
\<close>

definition setRepayAmount :: "real \<Rightarrow> App \<Rightarrow> App" where
  "setRepayAmount v app = app\<lparr>repayAmount := v\<rparr>"

section \<open>The tick\<close>

text \<open>
  The values \<open>Math.random()\<close> returns during one tick, one field per call site: a draw
  for each commodity's price shock, the draw of the next tax rate, the draw that decides
  whether an event starts, the draw that picks it from the pool and the draw of its
  duration. \<open>Math.random()\<close> returns a value in \<open>[0, 1)\<close>.
\<close>

record Rand =
  priceDraw :: "string \<Rightarrow> real"
  taxDraw :: real
  eventDraw :: real
  poolDraw :: real
  durationDraw :: real

subsection \<open>Prices\<close>

text \<open>\<open>xs.slice(-n)\<close>: the last \<open>n\<close> elements, all of them when there are fewer.\<close>

definition sliceLast :: "nat \<Rightarrow> 'a list \<Rightarrow> 'a list" where
  "sliceLast n xs = drop (length xs - n) xs"

text \<open>The body of \<open>COMMODITIES.forEach\<close> for one commodity, given its stored price.\<close>

definition targetPrice :: "Commodity \<Rightarrow> GlobalEvent option \<Rightarrow> real" where
  "targetPrice c ev =
     (case ev of
        None \<Rightarrow> basePrice c
      | Some e \<Rightarrow>
          if category_e e = Category (category_c c) \<or> category_e e = ALL_c
          then basePrice c * multiplier e else basePrice c)"

definition nextPrice :: "Commodity \<Rightarrow> GlobalEvent option \<Rightarrow> real \<Rightarrow> MarketPrice \<Rightarrow> MarketPrice" where
  "nextPrice c ev r price =
     (let changePercent = (r - 1 / 2) * 2 * volatility c;
          gravity = (targetPrice c ev - currentPrice price) * (1 / 10);
          newPrice = max (basePrice c * (1 / 10))
                         ((currentPrice price + gravity) * (1 + changePercent));
          newHistory = sliceLast 20 (history price @ [newPrice])
      in price\<lparr>currentPrice := newPrice, history := newHistory,
                trend := (if newPrice > currentPrice price then up else down)\<rparr>)"

text \<open>
  The loop over the catalog. \<open>nextPrices[c.id]\<close> is \<open>undefined\<close> for a commodity without a
  price, and reading its \<open>currentPrice\<close> throws.
\<close>

fun updatePrices ::
  "GlobalEvent option \<Rightarrow> (string \<Rightarrow> real) \<Rightarrow> Commodity list \<Rightarrow> (string \<rightharpoonup> MarketPrice)
     \<Rightarrow> (string \<rightharpoonup> MarketPrice) option" where
  "updatePrices ev rnd [] nextPrices = Some nextPrices"
| "updatePrices ev rnd (c # cs) nextPrices =
     (case nextPrices (id_c c) of
        None \<Rightarrow> None
      | Some price \<Rightarrow>
          updatePrices ev rnd cs
            (nextPrices(id_c c \<mapsto> nextPrice c ev (rnd (id_c c)) price)))"

subsection \<open>Events\<close>

text \<open>Count the active event down and clear it at 0.\<close>

definition countDown :: "GlobalEvent option \<Rightarrow> GlobalEvent option" where
  "countDown ev =
     (case ev of
        None \<Rightarrow> None
      | Some e \<Rightarrow>
          let e' = e\<lparr>remainingDays := remainingDays e - 1\<rparr>
          in if remainingDays e' \<le> 0 then None else Some e')"

text \<open>
  Possibly start a new event. The index \<open>Math.floor(Math.random() * EVENTS_POOL.length)\<close>
  is inside the pool for every draw in \<open>[0, 1)\<close>; for a draw outside that interval, which
  \<open>Math.random()\<close> never returns, the model answers \<open>None\<close>.
\<close>

definition trigger :: "Rand \<Rightarrow> int \<Rightarrow> GlobalEvent option \<Rightarrow> GlobalEvent option option" where
  "trigger rnd nextCycleProgress ev =
     (if nextCycleProgress \<ge> 10 \<and> ev = None \<and> eventDraw rnd > 3 / 10 then
        let idx = \<lfloor>poolDraw rnd * real (length EVENTS_POOL)\<rfloor>;
            duration = \<lfloor>durationDraw rnd * 5\<rfloor> + 3
        in if 0 \<le> idx \<and> idx < int (length EVENTS_POOL) then
             let randomEvent = EVENTS_POOL ! nat idx
             in Some (Some \<lparr>name_e = name_t randomEvent, description = description_t randomEvent,
                            category_e = category_t randomEvent,
                            multiplier = multiplier_t randomEvent,
                            duration = duration, remainingDays = duration\<rparr>)
           else None
      else Some ev)"

definition updateEvent :: "Rand \<Rightarrow> int \<Rightarrow> GlobalEvent option \<Rightarrow> GlobalEvent option option" where
  "updateEvent rnd nextCycleProgress ev = trigger rnd nextCycleProgress (countDown ev)"

subsection \<open>Tax\<close>

text \<open>
  The value of a facility: its unlock cost and the cost of every upgrade it has had,
  added by the loop \<open>for (i = 1; i < level; i++)\<close>.
\<close>

definition facilityValue :: "Commodity \<Rightarrow> int \<Rightarrow> real" where
  "facilityValue c lvl =
     foldl (\<lambda>val i. val + real_of_int \<lfloor>basePrice c * 25 * (18 / 10) ^ i\<rfloor>)
       (basePrice c * 25) [1 ..< nat lvl]"

text \<open>The two \<open>reduce\<close> calls of variant A's tax bill; a missing price or commodity throws.\<close>

fun inventoryValueAcc :: "(string \<rightharpoonup> MarketPrice) \<Rightarrow> real \<Rightarrow> InventoryItem list \<Rightarrow> real option" where
  "inventoryValueAcc ps acc [] = Some acc"
| "inventoryValueAcc ps acc (item # items) =
     (case ps (commodityId_i item) of
        None \<Rightarrow> None
      | Some p \<Rightarrow> inventoryValueAcc ps (acc + of_int (quantity item) * currentPrice p) items)"

fun infrastructureValueAcc :: "real \<Rightarrow> ProductionFacility list \<Rightarrow> real option" where
  "infrastructureValueAcc acc [] = Some acc"
| "infrastructureValueAcc acc (f # fs) =
     (case findCommodity (commodityId_f f) of
        None \<Rightarrow> None
      | Some c \<Rightarrow> infrastructureValueAcc (acc + facilityValue c (level f)) fs)"

text \<open>
  The result of the tax block: cash, lifetime taxes paid, tax rate and next tax day.
  Variant A bills the net worth at the new prices, never less than 0, and draws the
  next rate from \<open>[0.10, 0.20)\<close>.
\<close>

definition taxA ::
  "Rand \<Rightarrow> GameState \<Rightarrow> (string \<rightharpoonup> MarketPrice) \<Rightarrow> (real \<times> real \<times> real \<times> int) option" where
  "taxA rnd prev nextPrices =
     (if day prev + 1 \<ge> nextTaxDay prev then
        (case inventoryValueAcc nextPrices 0 (inventory prev) of
           None \<Rightarrow> None
         | Some currentInvVal \<Rightarrow>
             (case infrastructureValueAcc 0 (facilities prev) of
                None \<Rightarrow> None
              | Some currentInfraVal \<Rightarrow>
                  let currentNetWorth = cash prev + currentInvVal + currentInfraVal - debt prev;
                      taxBill = max 0 (currentNetWorth * taxRate prev)
                  in Some (cash prev - taxBill,
                           totalTaxesPaid (lifetime prev) + taxBill,
                           10 / 100 + taxDraw rnd * (10 / 100),
                           nextTaxDay prev + TAX_CYCLE)))
      else Some (cash prev, totalTaxesPaid (lifetime prev), taxRate prev, nextTaxDay prev))"

text \<open>Variant B bills the cash alone and draws the next rate from \<open>[0.10, 0.35)\<close>.\<close>

definition taxB :: "Rand \<Rightarrow> GameState \<Rightarrow> real \<times> real \<times> real \<times> int" where
  "taxB rnd prev =
     (if day prev + 1 \<ge> nextTaxDay prev then
        let taxBill = cash prev * taxRate prev
        in (cash prev - taxBill,
            totalTaxesPaid (lifetime prev) + taxBill,
            10 / 100 + taxDraw rnd * (25 / 100),
            nextTaxDay prev + TAX_CYCLE)
      else (cash prev, totalTaxesPaid (lifetime prev), taxRate prev, nextTaxDay prev))"

subsection \<open>Production\<close>

text \<open>
  The remainder \<open>x % y\<close> of JavaScript on numbers: the quotient is truncated towards
  zero, so the result has the sign of \<open>x\<close>.
\<close>

definition truncate :: "real \<Rightarrow> int" where
  "truncate x = (if x \<ge> 0 then \<lfloor>x\<rfloor> else \<lceil>x\<rceil>)"

definition jsRem :: "real \<Rightarrow> real \<Rightarrow> real" where
  "jsRem x y = x - y * of_int (truncate (x / y))"

text \<open>\<open>findIndex\<close>; \<open>None\<close> is \<open>-1\<close>.\<close>

fun findIndex :: "('a \<Rightarrow> bool) \<Rightarrow> 'a list \<Rightarrow> nat option" where
  "findIndex P [] = None"
| "findIndex P (x # xs) = (if P x then Some 0 else map_option Suc (findIndex P xs))"

text \<open>Credit one production yield to the first inventory item of the commodity, if any.\<close>

definition creditYield :: "string \<Rightarrow> int \<Rightarrow> InventoryItem list \<Rightarrow> InventoryItem list" where
  "creditYield i y nextInventory =
     (case findIndex (\<lambda>it. commodityId_i it = i) nextInventory of
        None \<Rightarrow> nextInventory
      | Some invIdx \<Rightarrow>
          nextInventory[invIdx :=
            (nextInventory ! invIdx)\<lparr>quantity := quantity (nextInventory ! invIdx) + y\<rparr>])"

text \<open>
  The body of \<open>prev.facilities.forEach\<close> on the running inventory, the facilities pushed
  so far and the day's production cost. The commodity is read only in the producing
  branch, so only there does an unknown commodity throw.
\<close>

definition produce ::
  "bool \<Rightarrow> InventoryItem list \<times> ProductionFacility list \<times> real \<Rightarrow> ProductionFacility
     \<Rightarrow> (InventoryItem list \<times> ProductionFacility list \<times> real) option" where
  "produce hasNoCash acc facility =
     (case acc of (nextInventory, nextFacilities, currentDayProductionCost) \<Rightarrow>
        let isForcePaused = isProducing facility \<and> hasNoCash;
            actualProducing = isProducing facility \<and> \<not> hasNoCash
        in if actualProducing then
             (case findCommodity (commodityId_f facility) of
                None \<Rightarrow> None
              | Some commodity \<Rightarrow>
                  let currentLevelCost =
                        real_of_int \<lfloor>productionCost commodity * ((14 / 10) powi (level facility - 1))\<rfloor>;
                      speedFactor = 5 + of_int (level facility) * 10;
                      newProgress = progress facility + speedFactor
                  in if newProgress \<ge> 100 then
                       Some (creditYield (commodityId_f facility) (productionYield commodity)
                               nextInventory,
                             nextFacilities @ [facility\<lparr>progress := jsRem newProgress 100\<rparr>],
                             currentDayProductionCost + currentLevelCost)
                     else
                       Some (nextInventory,
                             nextFacilities @ [facility\<lparr>progress := newProgress\<rparr>],
                             currentDayProductionCost + currentLevelCost))
           else
             Some (nextInventory,
                   nextFacilities @
                     [facility\<lparr>isProducing := (if isForcePaused then False
                                                else isProducing facility)\<rparr>],
                   currentDayProductionCost))"

fun produceAll ::
  "bool \<Rightarrow> InventoryItem list \<times> ProductionFacility list \<times> real \<Rightarrow> ProductionFacility list
     \<Rightarrow> (InventoryItem list \<times> ProductionFacility list \<times> real) option" where
  "produceAll hasNoCash acc [] = Some acc"
| "produceAll hasNoCash acc (f # fs) =
     (case produce hasNoCash acc f of
        None \<Rightarrow> None
      | Some acc' \<Rightarrow> produceAll hasNoCash acc' fs)"

subsection \<open>The two tick functions\<close>

text \<open>
  The callback of \<open>setInterval\<close>: the updater passed to \<open>setGameState\<close>, with its writes
  to the cycle refs. The interval exists only while the game is neither over nor (in
  variant A) paused, so the functions below do not test the flags.

  What both variants do after prices, tax and event are settled: interest, production,
  the cycle ledger and the new state. \<open>clampCash\<close> is the one difference: variant B
  stores \<open>Math.max(0, nextCash - currentDayProductionCost)\<close>, variant A the difference
  itself.
\<close>

definition finishTick ::
  "bool \<Rightarrow> App \<Rightarrow> (string \<rightharpoonup> MarketPrice) \<Rightarrow> GlobalEvent option
     \<Rightarrow> real \<times> real \<times> real \<times> int \<Rightarrow> App option" where
  "finishTick clampCash app nextPrices nextEvent tax =
     (case tax of (nextCash, totalTaxesPaid', currentTaxRate, nextTaxDay') \<Rightarrow>
        let prev = gameState app;
            nextDay = day prev + 1;
            nextCycleProgress = cycleProgress prev + 1;
            dailyInterest = debt prev * DAILY_INTEREST_RATE;
            nextDebt = debt prev + dailyInterest;
            hasNoCash = nextCash \<le> 0
        in (case produceAll hasNoCash (inventory prev, [], 0) (facilities prev) of
             None \<Rightarrow> None
           | Some (nextInventory, nextFacilities, currentDayProductionCost) \<Rightarrow>
               let production = cycleProductionRef app + currentDayProductionCost;
                   roll = nextCycleProgress \<ge> 10;
                   finalLedger =
                     (if roll then
                        \<lparr>sales = cycleSalesRef app, purchases = cyclePurchasesRef app,
                         productionCosts = production,
                         net = cycleSalesRef app - cyclePurchasesRef app - production\<rparr>
                      else lastLedger prev)
               in Some (app
                 \<lparr>cyclePurchasesRef := (if roll then 0 else cyclePurchasesRef app),
                   cycleSalesRef := (if roll then 0 else cycleSalesRef app),
                   cycleProductionRef := (if roll then 0 else production),
                   gameState := prev
                     \<lparr>day := nextDay,
                       cycleProgress := (if roll then 0 else nextCycleProgress),
                       prices := nextPrices,
                       inventory := nextInventory,
                       facilities := nextFacilities,
                       cash := (if clampCash then max 0 (nextCash - currentDayProductionCost)
                                else nextCash - currentDayProductionCost),
                       debt := nextDebt,
                       lastLedger := finalLedger,
                       activeEvent := nextEvent,
                       taxRate := currentTaxRate,
                       nextTaxDay := nextTaxDay',
                       lifetime := (lifetime prev)
                         \<lparr>totalProductionCosts :=
                             totalProductionCosts (lifetime prev) + currentDayProductionCost,
                           totalInterestPaid := totalInterestPaid (lifetime prev) + dailyInterest,
                           totalTaxesPaid := totalTaxesPaid'\<rparr>\<rparr>\<rparr>)))"

text \<open>
  Variant A: prices first, from the event of the previous state; then the tax, which
  reads the new prices; then the event.
\<close>

definition tickA :: "Rand \<Rightarrow> App \<Rightarrow> App option" where
  "tickA rnd app =
     (let prev = gameState app in
      case updatePrices (activeEvent prev) (priceDraw rnd) COMMODITIES (prices prev) of
        None \<Rightarrow> None
      | Some nextPrices \<Rightarrow>
          (case taxA rnd prev nextPrices of
             None \<Rightarrow> None
           | Some tax \<Rightarrow>
               (case updateEvent rnd (cycleProgress prev + 1) (activeEvent prev) of
                  None \<Rightarrow> None
                | Some nextEvent \<Rightarrow> finishTick False app nextPrices nextEvent tax)))"

text \<open>Variant B: the tax first, then the event, then the prices from the updated event.\<close>

definition tickB :: "Rand \<Rightarrow> App \<Rightarrow> App option" where
  "tickB rnd app =
     (let prev = gameState app;
          tax = taxB rnd prev in
      case updateEvent rnd (cycleProgress prev + 1) (activeEvent prev) of
        None \<Rightarrow> None
      | Some nextEvent \<Rightarrow>
          (case updatePrices nextEvent (priceDraw rnd) COMMODITIES (prices prev) of
             None \<Rightarrow> None
           | Some nextPrices \<Rightarrow> finishTick True app nextPrices nextEvent tax))"

text \<open>A run of ticks, one record of draws per tick; it stops at the first throw.\<close>

fun ticks :: "(Rand \<Rightarrow> App \<Rightarrow> App option) \<Rightarrow> Rand list \<Rightarrow> App \<Rightarrow> App option" where
  "ticks tick [] app = Some app"
| "ticks tick (r # rs) app =
     (case tick r app of
        None \<Rightarrow> None
      | Some app' \<Rightarrow> ticks tick rs app')"

section \<open>Selling a facility and toggling production\<close>

text \<open>
  \<open>handleSellFacility\<close> exists in variant A only. No facility returns \<open>prev\<close> before the
  commodity is looked up; the refund is 70 percent of the unlock cost and of every
  upgrade paid, rounded down.
\<close>

definition sellUpdater :: "string \<Rightarrow> GameState \<Rightarrow> GameState option" where
  "sellUpdater i prev =
     (case find (\<lambda>f. commodityId_f f = i) (facilities prev) of
        None \<Rightarrow> Some prev
      | Some facility \<Rightarrow>
          (case findCommodity i of
             None \<Rightarrow> None
           | Some commodity \<Rightarrow>
               let totalInvested = facilityValue commodity (level facility);
                   refund = real_of_int \<lfloor>totalInvested * (7 / 10)\<rfloor>
               in Some (prev
                    \<lparr>cash := cash prev + refund,
                      facilities := filter (\<lambda>f. commodityId_f f \<noteq> i) (facilities prev)\<rparr>)))"

definition handleSellFacilityA :: "string \<Rightarrow> App \<Rightarrow> App option" where
  "handleSellFacilityA i app =
     (if isPaused app then Some app
      else map_option (\<lambda>s. app\<lparr>gameState := s\<rparr>) (sellUpdater i (gameState app)))"

text \<open>\<open>handleToggleProduction\<close> flips the flag of every facility of the commodity.\<close>

definition toggleUpdater :: "string \<Rightarrow> GameState \<Rightarrow> GameState" where
  "toggleUpdater i prev =
     prev\<lparr>facilities :=
       map (\<lambda>f. if commodityId_f f = i then f\<lparr>isProducing := \<not> isProducing f\<rparr> else f)
         (facilities prev)\<rparr>"

definition handleToggleProductionA :: "string \<Rightarrow> App \<Rightarrow> App" where
  "handleToggleProductionA i app =
     (if isPaused app then app else app\<lparr>gameState := toggleUpdater i (gameState app)\<rparr>)"

definition handleToggleProductionB :: "string \<Rightarrow> App \<Rightarrow> App" where
  "handleToggleProductionB i app = app\<lparr>gameState := toggleUpdater i (gameState app)\<rparr>"

section \<open>The price-change label of CommodityCard\<close>

text \<open>
  \<open>x.toFixed(2)\<close> for a finite \<open>x\<close>: the sign, then the integer \<open>n\<close> nearest to
  \<open>|x| * 100\<close> (the larger one on a tie) written with two decimals. Beyond \<open>10^21\<close>
  JavaScript switches to exponent notation, which the model does not follow.
\<close>

definition digitChar :: "nat \<Rightarrow> char" where
  "digitChar d = ''0123456789'' ! (d mod 10)"

fun digits :: "nat \<Rightarrow> string" where
  "digits n = (if n < 10 then [digitChar n] else digits (n div 10) @ [digitChar (n mod 10)])"

declare digits.simps [simp del]

definition toFixed2 :: "real \<Rightarrow> string" where
  "toFixed2 x =
     (let n = nat \<lfloor>\<bar>x\<bar> * 100 + 1 / 2\<rfloor>
      in (if x < 0 then ''-'' else []) @ digits (n div 100) @ ''.'' @
         [digitChar (n mod 100 div 10), digitChar (n mod 10)])"

text \<open>
  \<open>priceChange\<close>, the same expression in both versions of the card. A division by a
  prior price of 0 gives an infinity or \<open>NaN\<close> in JavaScript, which \<open>toFixed\<close> prints by
  name.
\<close>

definition priceChange :: "MarketPrice \<Rightarrow> string" where
  "priceChange marketData =
     (if length (history marketData) > 1 then
        let prior = history marketData ! (length (history marketData) - 2)
        in if prior = 0 then
             (if currentPrice marketData > 0 then ''Infinity''
              else if currentPrice marketData < 0 then ''-Infinity'' else ''NaN'')
           else toFixed2 ((currentPrice marketData - prior) / prior * 100)
      else ''0.00'')"

section \<open>Measures and sample states used in the statements below\<close>

text \<open>The number of units held, over all inventory items.\<close>

definition totalQuantity :: "InventoryItem list \<Rightarrow> int" where
  "totalQuantity items = sum_list (map quantity items)"

text \<open>
  What one facility's step of the production loop may do, relating the facility \<open>f\<close>
  before the tick to the facility \<open>g\<close> pushed for it and the number \<open>d\<close> of units
  credited on its behalf: the facility keeps its commodity and level; a progress in
  \<open>[0, 100)\<close> stays in \<open>[0, 100)\<close> (for a level that is not negative; unlocking creates
  level 1 and upgrading adds 1); and the credit is nothing or one production yield of
  the facility's commodity.
\<close>

definition facilityStep :: "ProductionFacility \<Rightarrow> ProductionFacility \<times> int \<Rightarrow> bool" where
  "facilityStep f gd =
     (case gd of (g, d) \<Rightarrow>
        commodityId_f g = commodityId_f f \<and> level g = level f \<and>
        (0 \<le> progress f \<and> progress f < 100 \<and> 0 \<le> level f
           \<longrightarrow> 0 \<le> progress g \<and> progress g < 100) \<and>
        (d = 0 \<or> map_option productionYield (findCommodity (commodityId_f f)) = Some d))"

text \<open>
  A state in which no lookup of the tick throws: every commodity of the catalog and
  every inventory item has a price, and every facility belongs to a commodity of the
  catalog. The initial state is such a state, and the tick and every action keep it so.
\<close>

definition wellFormed :: "GameState \<Rightarrow> bool" where
  "wellFormed s \<longleftrightarrow>
     (\<forall>c \<in> set COMMODITIES. prices s (id_c c) \<noteq> None) \<and>
     (\<forall>item \<in> set (inventory s). prices s (commodityId_i item) \<noteq> None) \<and>
     (\<forall>f \<in> set (facilities s). findCommodity (commodityId_f f) \<noteq> None)"

text \<open>The draw that picks the event is a value \<open>Math.random()\<close> can return.\<close>

definition poolDrawInRange :: "Rand \<Rightarrow> bool" where
  "poolDrawInRange r \<longleftrightarrow> 0 \<le> poolDraw r \<and> poolDraw r < 1"

text \<open>Draws in the middle of the range: no price shock, no event started.\<close>

definition calmDraws :: Rand where
  "calmDraws = \<lparr>priceDraw = (\<lambda>_. 1 / 2), taxDraw = 0, eventDraw = 0, poolDraw = 0,
                 durationDraw = 0\<rparr>"

text \<open>Draws at the bottom of the range: the largest downward shock for every price.\<close>

definition lowDraws :: Rand where
  "lowDraws = \<lparr>priceDraw = (\<lambda>_. 0), taxDraw = 0, eventDraw = 0, poolDraw = 0,
                durationDraw = 0\<rparr>"

text \<open>Little cash, a loan of 2000 and one oil facility at level 1.\<close>

definition strainedApp :: "real \<Rightarrow> App" where
  "strainedApp rate = (initialApp rate)
     \<lparr>gameState := (initialGameState rate)
        \<lparr>cash := 10, debt := 2000,
          facilities := [\<lparr>commodityId_f = ''oil'', level = 1, isProducing = True,
                          progress = 90\<rparr>]\<rparr>\<rparr>"

text \<open>An oil facility at level 20, whose daily increment is 205, half way through.\<close>

definition fastFactoryApp :: "real \<Rightarrow> App" where
  "fastFactoryApp rate = (initialApp rate)
     \<lparr>gameState := (initialGameState rate)
        \<lparr>facilities := [\<lparr>commodityId_f = ''oil'', level = 20, isProducing = True,
                          progress = 50\<rparr>]\<rparr>\<rparr>"

text \<open>The market-wide event of the pool (multiplier 0.5) on its last day.\<close>

definition expiringApp :: "real \<Rightarrow> App" where
  "expiringApp rate = (initialApp rate)
     \<lparr>gameState := (initialGameState rate)
        \<lparr>activeEvent := Some \<lparr>name_e = ''Technological Breakthrough'',
            description = ''Efficiency gains lead to market surplus and price drops.'',
            category_e = ALL_c, multiplier = 5 / 10, duration = 3, remainingDays = 1\<rparr>\<rparr>\<rparr>"

text \<open>Gas at its floor of 0.4 while the energy glut (multiplier 0.4) has three days to run.\<close>

definition gasCrashApp :: "real \<Rightarrow> App" where
  "gasCrashApp rate = (initialApp rate)
     \<lparr>gameState := (initialGameState rate)
        \<lparr>prices := (prices (initialGameState rate))
            (''gas'' \<mapsto> \<lparr>id_p = ''gas'', currentPrice = 4 / 10, history = [4, 4 / 10],
                          trend = down\<rparr>),
          activeEvent := Some \<lparr>name_e = ''Energy Discovery'',
            description = ''New shale reserves discovered, energy prices tank.'',
            category_e = Category ENERGY, multiplier = 4 / 10, duration = 5,
            remainingDays = 3\<rparr>\<rparr>\<rparr>"

text \<open>Cash 50, debt 200, and 100 left on the repayment slider from an earlier render.\<close>

definition overdrawnApp :: App where
  "overdrawnApp = (initialApp INITIAL_TAX_RATE_A)
     \<lparr>gameState := (initialGameState INITIAL_TAX_RATE_A)\<lparr>cash := 50, debt := 200\<rparr>,
      repayAmount := 100\<rparr>"

text \<open>The same while the game is paused (variant A).\<close>

definition pausedOverdrawnApp :: App where
  "pausedOverdrawnApp = overdrawnApp\<lparr>isPaused := True\<rparr>"

text \<open>The same with a valid amount of 30 on the slider.\<close>

definition repayingApp :: App where
  "repayingApp = overdrawnApp\<lparr>repayAmount := 30\<rparr>"

text \<open>A loan of 5000 already taken.\<close>

definition indebtedApp :: "real \<Rightarrow> App" where
  "indebtedApp rate = (initialApp rate)
     \<lparr>gameState := (initialGameState rate)\<lparr>cash := 10000, debt := 5000\<rparr>\<rparr>"

text \<open>With that loan and cash 10000, the slider moved to its maximum of 5000.\<close>

definition staleSliderApp :: "real \<Rightarrow> App" where
  "staleSliderApp rate = setRepayAmount 5000 (indebtedApp rate)"

section \<open>Facts about the price loop\<close>

lemma commodity_ids_distinct: "distinct (map id_c COMMODITIES)"
  by (simp add: COMMODITIES_def)

lemma updatePrices_other:
  "updatePrices ev rnd cs m = Some m' \<Longrightarrow> i \<notin> id_c ` set cs \<Longrightarrow> m' i = m i"
  by (induction cs arbitrary: m) (auto split: option.splits)

text \<open>
  With distinct ids, the loop stores for each commodity the next price computed from the
  price it had before the loop.
\<close>

lemma updatePrices_at:
  "updatePrices ev rnd cs m = Some m' \<Longrightarrow> distinct (map id_c cs) \<Longrightarrow> c \<in> set cs \<Longrightarrow>
   \<exists>p0. m (id_c c) = Some p0 \<and> m' (id_c c) = Some (nextPrice c ev (rnd (id_c c)) p0)"
proof (induction cs arbitrary: m)
  case Nil
  then show ?case by simp
next
  case (Cons c' cs)
  from Cons.prems(1) obtain price where price: "m (id_c c') = Some price"
    and rest: "updatePrices ev rnd cs (m(id_c c' \<mapsto> nextPrice c' ev (rnd (id_c c')) price)) = Some m'"
    by (auto split: option.splits)
  from Cons.prems(2) have fresh: "id_c c' \<notin> id_c ` set cs" and dist: "distinct (map id_c cs)"
    by auto
  show ?case
  proof (cases "c = c'")
    case True
    from updatePrices_other [OF rest fresh] price True show ?thesis by simp
  next
    case False
    with Cons.prems(3) have mem: "c \<in> set cs" by simp
    then have "id_c c \<in> id_c ` set cs" by (rule imageI)
    with fresh have "id_c c \<noteq> id_c c'" by auto
    with Cons.IH [OF rest dist mem] show ?thesis by simp
  qed
qed

lemma nextPrice_floor: "basePrice c * (1 / 10) \<le> currentPrice (nextPrice c ev r p)"
  by (simp add: nextPrice_def Let_def)

text \<open>Which event the price loop of each variant reads, and which event the tick stores.\<close>

lemma tickA_prices:
  "tickA rnd app = Some app' \<Longrightarrow>
   updatePrices (activeEvent (gameState app)) (priceDraw rnd) COMMODITIES (prices (gameState app))
     = Some (prices (gameState app')) \<and>
   updateEvent rnd (cycleProgress (gameState app) + 1) (activeEvent (gameState app))
     = Some (activeEvent (gameState app'))"
  by (auto simp: tickA_def finishTick_def Let_def split: option.splits prod.splits)

lemma tickB_prices:
  "tickB rnd app = Some app' \<Longrightarrow>
   updatePrices (activeEvent (gameState app')) (priceDraw rnd) COMMODITIES (prices (gameState app))
     = Some (prices (gameState app')) \<and>
   updateEvent rnd (cycleProgress (gameState app) + 1) (activeEvent (gameState app))
     = Some (activeEvent (gameState app'))"
  by (auto simp: tickB_def finishTick_def Let_def split: option.splits prod.splits)

section \<open>Facts about runs of ticks\<close>

lemma ticks_last:
  "ticks tick rs app = Some app' \<Longrightarrow> rs \<noteq> [] \<Longrightarrow> \<exists>r a. tick r a = Some app'"
proof (induction rs arbitrary: app)
  case Nil
  then show ?case by simp
next
  case (Cons r rs)
  from Cons.prems(1) obtain a where a: "tick r app = Some a" and rest: "ticks tick rs a = Some app'"
    by (auto split: option.splits)
  show ?case
  proof (cases rs)
    case Nil
    with a rest show ?thesis by auto
  next
    case (Cons r' rs')
    then have "rs \<noteq> []" by simp
    from Cons.IH [OF rest this] show ?thesis .
  qed
qed

lemma tickA_debt:
  "tickA rnd app = Some app' \<Longrightarrow> debt (gameState app') = debt (gameState app) * (1015 / 1000)"
  by (auto simp: tickA_def finishTick_def Let_def DAILY_INTEREST_RATE_def algebra_simps
      split: option.splits prod.splits)

lemma tickB_debt:
  "tickB rnd app = Some app' \<Longrightarrow> debt (gameState app') = debt (gameState app) * (1015 / 1000)"
  by (auto simp: tickB_def finishTick_def Let_def DAILY_INTEREST_RATE_def algebra_simps
      split: option.splits prod.splits)

lemma ticks_debt:
  "(\<forall>r a a'. tick r a = Some a' \<longrightarrow> debt (gameState a') = debt (gameState a) * (1015 / 1000)) \<Longrightarrow>
   ticks tick rs app = Some app' \<Longrightarrow>
   debt (gameState app') = debt (gameState app) * (1015 / 1000) ^ length rs"
proof (induction rs arbitrary: app)
  case Nil
  then show ?case by simp
next
  case (Cons r rs)
  from Cons.prems(2) obtain a where a: "tick r app = Some a" and rest: "ticks tick rs a = Some app'"
    by (auto split: option.splits)
  from Cons.prems(1) a have "debt (gameState a) = debt (gameState app) * (1015 / 1000)"
    by blast
  with Cons.IH [OF Cons.prems(1) rest] show ?case by simp
qed

section \<open>Facts about production\<close>

lemma findIndex_Some: "findIndex P xs = Some k \<Longrightarrow> k < length xs"
  by (induction xs arbitrary: k) (auto split: if_splits)

lemma credit_sum:
  "k < length xs \<Longrightarrow>
   sum_list (map quantity (xs[k := (xs ! k)\<lparr>quantity := quantity (xs ! k) + y\<rparr>]))
     = sum_list (map quantity xs) + y"
  by (induction xs arbitrary: k) (auto split: nat.splits)

lemma creditYield_total:
  "totalQuantity (creditYield i y items) = totalQuantity items \<or>
   totalQuantity (creditYield i y items) = totalQuantity items + y"
  by (auto simp: creditYield_def totalQuantity_def credit_sum dest: findIndex_Some
      split: option.splits)

lemma jsRem_range: "100 \<le> x \<Longrightarrow> 0 \<le> jsRem x 100 \<and> jsRem x 100 < 100"
proof -
  assume x: "100 \<le> x"
  have lo: "real_of_int \<lfloor>x / 100\<rfloor> * 100 \<le> x"
    by (rule floor_divide_lower) simp
  have hi: "x < (real_of_int \<lfloor>x / 100\<rfloor> + 1) * 100"
    by (rule floor_divide_upper) simp
  from x have "truncate (x / 100) = \<lfloor>x / 100\<rfloor>" by (simp add: truncate_def)
  with lo hi show ?thesis by (simp add: jsRem_def algebra_simps)
qed

lemma produce_step:
  assumes "produce h (items, facs, cost) f = Some (items', facs', cost')"
  shows "\<exists>g d. facs' = facs @ [g] \<and> facilityStep f (g, d) \<and>
               totalQuantity items' = totalQuantity items + d"
proof (cases "isProducing f \<and> \<not> h")
  case False
  with assms show ?thesis
    by (auto simp: produce_def facilityStep_def Let_def)
next
  case True
  with assms obtain c where c: "findCommodity (commodityId_f f) = Some c"
    by (auto simp: produce_def Let_def split: option.splits)
  let ?np = "progress f + (5 + of_int (level f) * 10)"
  show ?thesis
  proof (cases "?np \<ge> 100")
    case big: True
    with True c assms have items': "items' = creditYield (commodityId_f f) (productionYield c) items"
      and facs': "facs' = facs @ [f\<lparr>progress := jsRem ?np 100\<rparr>]"
      by (auto simp: produce_def Let_def)
    from creditYield_total [of "commodityId_f f" "productionYield c" items] items'
    have "totalQuantity items' = totalQuantity items + 0 \<or>
          totalQuantity items' = totalQuantity items + productionYield c"
      by auto
    with c facs' jsRem_range [OF big] show ?thesis
      by (auto simp: facilityStep_def)
  next
    case small: False
    with True c assms have items': "items' = items"
      and facs': "facs' = facs @ [f\<lparr>progress := ?np\<rparr>]"
      by (auto simp: produce_def Let_def)
    have "0 \<le> progress f \<and> 0 \<le> level f \<longrightarrow> 0 \<le> ?np" by auto
    with small items' facs' show ?thesis
      by (auto simp: facilityStep_def)
  qed
qed

lemma produceAll_steps:
  "produceAll h (items, facs, cost) fs = Some (items', facs', cost') \<Longrightarrow>
   \<exists>gds. facs' = facs @ map fst gds \<and> list_all2 facilityStep fs gds \<and>
         totalQuantity items' = totalQuantity items + sum_list (map snd gds)"
proof (induction fs arbitrary: items facs cost)
  case Nil
  then show ?case by simp
next
  case (Cons f fs)
  from Cons.prems obtain items1 facs1 cost1
    where one: "produce h (items, facs, cost) f = Some (items1, facs1, cost1)"
      and rest: "produceAll h (items1, facs1, cost1) fs = Some (items', facs', cost')"
    by (auto split: option.splits)
  from produce_step [OF one] obtain g d
    where g: "facs1 = facs @ [g]" "facilityStep f (g, d)"
      "totalQuantity items1 = totalQuantity items + d"
    by blast
  from Cons.IH [OF rest] obtain gds
    where gds: "facs' = facs1 @ map fst gds" "list_all2 facilityStep fs gds"
      "totalQuantity items' = totalQuantity items1 + sum_list (map snd gds)"
    by blast
  from g gds have "facs' = facs @ map fst ((g, d) # gds) \<and>
      list_all2 facilityStep (f # fs) ((g, d) # gds) \<and>
      totalQuantity items' = totalQuantity items + sum_list (map snd ((g, d) # gds))"
    by simp
  then show ?case by blast
qed

lemma tickA_production:
  "tickA rnd app = Some app' \<Longrightarrow>
   \<exists>h cost. produceAll h (inventory (gameState app), [], 0) (facilities (gameState app))
           = Some (inventory (gameState app'), facilities (gameState app'), cost)"
  by (fastforce simp: tickA_def finishTick_def Let_def split: option.splits prod.splits)

lemma tickB_production:
  "tickB rnd app = Some app' \<Longrightarrow>
   \<exists>h cost. produceAll h (inventory (gameState app), [], 0) (facilities (gameState app))
           = Some (inventory (gameState app'), facilities (gameState app'), cost)"
  by (fastforce simp: tickB_def finishTick_def Let_def split: option.splits prod.splits)

section \<open>Evaluation of sample ticks\<close>

lemmas tick_eval = tickA_def tickB_def taxA_def taxB_def initialApp_def initialGameState_def
  COMMODITIES_def updateEvent_def countDown_def trigger_def finishTick_def nextPrice_def
  targetPrice_def sliceLast_def TAX_CYCLE_def Let_def produce_def findCommodity_def
  INITIAL_CASH_def creditYield_def jsRem_def truncate_def totalQuantity_def
  DAILY_INTEREST_RATE_def calmDraws_def lowDraws_def

lemma gas_runA:
  "map_option (\<lambda>a. map_option currentPrice (prices (gameState a) ''gas''))
     (ticks tickA [lowDraws, lowDraws] (gasCrashApp INITIAL_TAX_RATE_A)) = Some (Some (4 / 10))"
  by (simp add: tick_eval gasCrashApp_def)

lemma gas_runB:
  "map_option (\<lambda>a. map_option currentPrice (prices (gameState a) ''gas''))
     (ticks tickB [lowDraws, lowDraws] (gasCrashApp INITIAL_TAX_RATE_B)) = Some (Some (4 / 10))"
  by (simp add: tick_eval gasCrashApp_def)

lemma strained_runA:
  "map_option (\<lambda>a. (cash (gameState a), debt (gameState a)))
     (ticks tickA [calmDraws, lowDraws] (strainedApp INITIAL_TAX_RATE_A))
     = Some (- 40, 41209 / 20)"
  by (simp add: tick_eval strainedApp_def)

lemma strained_runB:
  "map_option (\<lambda>a. (cash (gameState a), debt (gameState a)))
     (ticks tickB [calmDraws, lowDraws] (strainedApp INITIAL_TAX_RATE_B))
     = Some (0, 41209 / 20)"
  by (simp add: tick_eval strainedApp_def)

lemma strained_tickA:
  "map_option (\<lambda>a. cash (gameState a)) (tickA calmDraws (strainedApp INITIAL_TAX_RATE_A))
     = Some (- 40)"
  by (simp add: tick_eval strainedApp_def)

lemma strained_tickB:
  "map_option (\<lambda>a. cash (gameState a)) (tickB calmDraws (strainedApp INITIAL_TAX_RATE_B)) = Some 0"
  by (simp add: tick_eval strainedApp_def)

lemma factory_runA:
  "map_option (\<lambda>a. (map progress (facilities (gameState a)), totalQuantity (inventory (gameState a))))
     (tickA calmDraws (fastFactoryApp INITIAL_TAX_RATE_A)) = Some ([55], 10)"
  by (simp add: tick_eval fastFactoryApp_def)

lemma factory_runB:
  "map_option (\<lambda>a. (map progress (facilities (gameState a)), totalQuantity (inventory (gameState a))))
     (tickB calmDraws (fastFactoryApp INITIAL_TAX_RATE_B)) = Some ([55], 10)"
  by (simp add: tick_eval fastFactoryApp_def)

lemma expiring_runA:
  "map_option (\<lambda>a. (activeEvent (gameState a), map_option currentPrice (prices (gameState a) ''oil'')))
     (tickA calmDraws (expiringApp INITIAL_TAX_RATE_A)) = Some (None, Some 76)"
  by (simp add: tick_eval expiringApp_def)

lemma expiring_runB:
  "map_option (\<lambda>a. (activeEvent (gameState a), map_option currentPrice (prices (gameState a) ''oil'')))
     (tickB calmDraws (expiringApp INITIAL_TAX_RATE_B)) = Some (None, Some 80)"
  by (simp add: tick_eval expiringApp_def)

lemma nextPrice_current:
  "currentPrice (nextPrice c ev r p) =
     max (basePrice c * (1 / 10))
         ((currentPrice p + (targetPrice c ev - currentPrice p) * (1 / 10)) *
          (1 + (r - 1 / 2) * 2 * volatility c))"
  by (simp add: nextPrice_def Let_def)

section \<open>Facts about trading\<close>

lemma find_after_trade:
  "find (\<lambda>it. commodityId_i it = i)
     (map (\<lambda>item. if commodityId_i item = i then item\<lparr>quantity := quantity item + q\<rparr> else item) xs)
   = map_option (\<lambda>it. it\<lparr>quantity := quantity it + q\<rparr>) (find (\<lambda>it. commodityId_i it = i) xs)"
  by (induction xs) auto

lemma owned_after_trade:
  "owned (s\<lparr>cash := c, inventory :=
        map (\<lambda>item. if commodityId_i item = i then item\<lparr>quantity := quantity item + q\<rparr> else item)
          (inventory s), lifetime := l\<rparr>) i
   = map_option (\<lambda>n. n + q) (owned s i)"
  by (simp add: owned_def find_after_trade option.map_comp comp_def)

lemma tradeUpdater_reject:
  assumes "prices (gameState app) i = Some mp"
    and "(0 < q \<and> cash (gameState app) < of_int q * currentPrice mp) \<or>
         (q < 0 \<and> (case owned (gameState app) i of None \<Rightarrow> True | Some n \<Rightarrow> n < \<bar>q\<bar>))"
  shows "tradeUpdater i q app = Some app"
  using assms by (auto simp: tradeUpdater_def owned_def Let_def split: option.splits)

lemma tradeUpdater_accept:
  assumes "prices (gameState app) i = Some mp"
    and "owned (gameState app) i = Some n"
    and "(0 < q \<and> of_int q * currentPrice mp \<le> cash (gameState app)) \<or> (q < 0 \<and> \<bar>q\<bar> \<le> n)"
  shows "\<exists>app'. tradeUpdater i q app = Some app' \<and>
           cash (gameState app') = cash (gameState app) - of_int q * currentPrice mp \<and>
           owned (gameState app') i = Some (n + q)"
  using assms
  by (auto simp: tradeUpdater_def Let_def owned_after_trade split: option.splits)
     (auto simp: owned_def)

section \<open>Evaluation of sample actions\<close>

lemmas action_eval = initialApp_def initialGameState_def INITIAL_CASH_def COMMODITIES_def
  findCommodity_def owned_def TAX_CYCLE_def

lemma oil_trade_facts:
  "\<not> isPaused (initialApp INITIAL_TAX_RATE_A) \<and> \<not> isGameOver (initialApp INITIAL_TAX_RATE_A) \<and>
   prices (gameState (initialApp INITIAL_TAX_RATE_A)) ''oil''
     = Some \<lparr>id_p = ''oil'', currentPrice = 80, history = [80], trend = stable\<rparr> \<and>
   owned (gameState (initialApp INITIAL_TAX_RATE_A)) ''oil'' = Some 0 \<and>
   map_option (\<lambda>a. (cash (gameState a), owned (gameState a) ''oil''))
     (handleTradeA ''oil'' 10 (initialApp INITIAL_TAX_RATE_A)) = Some (4200, Some 10)"
  by (simp add: action_eval handleTradeA_def tradeUpdater_def Let_def)

lemma overdrawn_facts:
  "\<not> isPaused overdrawnApp \<and> isPaused pausedOverdrawnApp \<and>
   maxRepayable overdrawnApp = 50 \<and> repayAmount overdrawnApp = 100 \<and>
   cash (gameState overdrawnApp) = 50 \<and> debt (gameState overdrawnApp) = 200 \<and>
   prices (gameState overdrawnApp) ''oil''
     = Some \<lparr>id_p = ''oil'', currentPrice = 80, history = [80], trend = stable\<rparr> \<and>
   findCommodity ''oil'' = Some (COMMODITIES ! 0) \<and> basePrice (COMMODITIES ! 0) * 25 = 2000 \<and>
   find (\<lambda>f. commodityId_f f = ''oil'') (facilities (gameState overdrawnApp)) = None"
  by (simp add: overdrawnApp_def pausedOverdrawnApp_def maxRepayable_def action_eval)

lemma repaying_facts:
  "\<not> isPaused repayingApp \<and> maxRepayable repayingApp = 50 \<and> repayAmount repayingApp = 30 \<and>
   cash (gameState repayingApp) = 50 \<and> debt (gameState repayingApp) = 200"
  by (simp add: repayingApp_def overdrawnApp_def maxRepayable_def action_eval)

section \<open>Facts about the facility actions\<close>

lemma no_facility_toggle:
  "find (\<lambda>f. commodityId_f f = i) (facilities s) = None \<Longrightarrow> toggleUpdater i s = s"
proof -
  assume "find (\<lambda>f. commodityId_f f = i) (facilities s) = None"
  then have "\<forall>f \<in> set (facilities s). commodityId_f f \<noteq> i"
    by (simp add: find_None_iff)
  then have "map (\<lambda>f. if commodityId_f f = i then f\<lparr>isProducing := \<not> isProducing f\<rparr> else f)
         (facilities s) = facilities s"
    by (intro map_idI) simp
  then show ?thesis by (simp add: toggleUpdater_def)
qed

lemma no_facility_rejections:
  "find (\<lambda>f. commodityId_f f = i) (facilities (gameState app)) = None \<longrightarrow>
      handleSellFacilityA i app = Some app \<and>
      handleToggleProductionA i app = app \<and> handleToggleProductionB i app = app"
  by (auto simp: handleSellFacilityA_def sellUpdater_def handleToggleProductionA_def
      handleToggleProductionB_def no_facility_toggle)

lemma mutators_return:
   "(prices (gameState app) i = Some mp \<longrightarrow>
      handleTradeA i q app \<noteq> None \<and> handleTradeB i q app \<noteq> None) \<and>
   (findCommodity i = Some c \<longrightarrow>
      handleUnlockFacilityA i app \<noteq> None \<and> handleUnlockFacilityB i app \<noteq> None \<and>
      handleUpgradeFacilityA i app \<noteq> None \<and> handleUpgradeFacilityB i app \<noteq> None \<and>
      handleSellFacilityA i app \<noteq> None)"
  by (auto simp: handleTradeA_def handleTradeB_def tradeUpdater_def Let_def
      handleUnlockFacilityA_def handleUnlockFacilityB_def
      handleUpgradeFacilityA_def handleUpgradeFacilityB_def upgradeUpdater_def
      handleSellFacilityA_def sellUpdater_def split: option.splits)

section \<open>Ticks and actions on well-formed states\<close>

text \<open>
  From the initial state on, every state the game reaches is well formed, and on a
  well-formed state a tick of either variant returns a state: the hypothesis
  \<open>tick rnd app = Some app'\<close> of the claims below holds for every reachable state and
  every draw in range.
\<close>

lemma updatePrices_total:
  "\<forall>c \<in> set cs. m (id_c c) \<noteq> None \<Longrightarrow>
   \<exists>m'. updatePrices ev rnd cs m = Some m' \<and> (\<forall>i. (m' i \<noteq> None) = (m i \<noteq> None))"
proof (induction cs arbitrary: m)
  case Nil
  then show ?case by simp
next
  case (Cons c cs)
  from Cons.prems obtain price where price: "m (id_c c) = Some price" by auto
  let ?m = "m(id_c c \<mapsto> nextPrice c ev (rnd (id_c c)) price)"
  from Cons.prems have "\<forall>c' \<in> set cs. ?m (id_c c') \<noteq> None" by auto
  from Cons.IH [OF this] obtain m' where m': "updatePrices ev rnd cs ?m = Some m'"
    and dom: "\<forall>i. (m' i \<noteq> None) = (?m i \<noteq> None)"
    by blast
  from dom price have "\<forall>i. (m' i \<noteq> None) = (m i \<noteq> None)" by auto
  with m' price show ?case by simp
qed

lemma inventoryValueAcc_total:
  "\<forall>item \<in> set items. ps (commodityId_i item) \<noteq> None \<Longrightarrow>
   \<exists>v. inventoryValueAcc ps acc items = Some v"
  by (induction items arbitrary: acc) auto

lemma infrastructureValueAcc_total:
  "\<forall>f \<in> set fs. findCommodity (commodityId_f f) \<noteq> None \<Longrightarrow>
   \<exists>v. infrastructureValueAcc acc fs = Some v"
  by (induction fs arbitrary: acc) auto

lemma trigger_total:
  assumes "poolDrawInRange rnd"
  shows "\<exists>e. trigger rnd n ev = Some e"
proof -
  from assms have "0 \<le> poolDraw rnd * 7" and "poolDraw rnd * 7 < 7"
    by (simp_all add: poolDrawInRange_def)
  then have "0 \<le> \<lfloor>poolDraw rnd * 7\<rfloor>" and "\<lfloor>poolDraw rnd * 7\<rfloor> < 7"
    by (simp_all add: floor_less_iff)
  then show ?thesis
    by (simp add: trigger_def EVENTS_POOL_def Let_def)
qed

lemma creditYield_ids:
  "map commodityId_i (creditYield i y items) = map commodityId_i items"
  by (auto simp: creditYield_def map_update list_update_same_conv dest: findIndex_Some
      split: option.splits)

lemma produce_total:
  "findCommodity (commodityId_f f) \<noteq> None \<Longrightarrow>
   \<exists>items' facs' cost'. produce h (items, facs, cost) f = Some (items', facs', cost') \<and>
      map commodityId_i items' = map commodityId_i items"
  by (auto simp: produce_def Let_def creditYield_ids)

lemma produceAll_total:
  "\<forall>f \<in> set fs. findCommodity (commodityId_f f) \<noteq> None \<Longrightarrow>
   \<exists>items' facs' cost'. produceAll h (items, facs, cost) fs = Some (items', facs', cost') \<and>
      map commodityId_i items' = map commodityId_i items"
proof (induction fs arbitrary: items facs cost)
  case Nil
  then show ?case by simp
next
  case (Cons f fs)
  from Cons.prems have "findCommodity (commodityId_f f) \<noteq> None" by simp
  from produce_total [OF this, of h items facs cost] obtain items1 facs1 cost1
    where one: "produce h (items, facs, cost) f = Some (items1, facs1, cost1)"
      and ids1: "map commodityId_i items1 = map commodityId_i items"
    by blast
  from Cons.prems have "\<forall>f \<in> set fs. findCommodity (commodityId_f f) \<noteq> None" by simp
  from Cons.IH [OF this, of items1 facs1 cost1] obtain items' facs' cost'
    where rest: "produceAll h (items1, facs1, cost1) fs = Some (items', facs', cost')"
      and ids: "map commodityId_i items' = map commodityId_i items1"
    by blast
  from one rest ids ids1 show ?case by simp
qed

lemma produceAll_facility_ids:
  "produceAll h (items, [], cost) fs = Some (items', facs', cost') \<Longrightarrow>
   map commodityId_f facs' = map commodityId_f fs"
proof -
  assume "produceAll h (items, [], cost) fs = Some (items', facs', cost')"
  from produceAll_steps [OF this] obtain gds
    where facs: "facs' = map fst gds" and rel: "list_all2 facilityStep fs gds"
    by auto
  from rel have "list_all2 (\<lambda>f gd. commodityId_f (fst gd) = commodityId_f f) fs gds"
    by (rule list_all2_mono) (auto simp: facilityStep_def)
  then have "map commodityId_f (map fst gds) = map commodityId_f fs"
    by (induction rule: list_all2_induct) auto
  with facs show ?thesis by simp
qed

lemma wellFormed_after:
  assumes wf: "wellFormed s"
    and dom: "\<forall>i. (ps i \<noteq> None) = (prices s i \<noteq> None)"
    and items: "map commodityId_i items' = map commodityId_i (inventory s)"
    and facs: "map commodityId_f facs' = map commodityId_f (facilities s)"
    and s': "prices s' = ps" "inventory s' = items'" "facilities s' = facs'"
  shows "wellFormed s'"
proof -
  from items have "commodityId_i ` set items' = commodityId_i ` set (inventory s)"
    by (metis set_map)
  moreover from facs have "commodityId_f ` set facs' = commodityId_f ` set (facilities s)"
    by (metis set_map)
  ultimately show ?thesis
    using wf dom s' unfolding wellFormed_def
    by (metis (no_types, lifting) image_iff)
qed


lemma tickB_total:
  assumes wf: "wellFormed (gameState app)" and draw: "poolDrawInRange rnd"
  shows "\<exists>app'. tickB rnd app = Some app' \<and> wellFormed (gameState app')"
proof -
  let ?s = "gameState app"
  from trigger_total [OF draw] obtain ev
    where ev: "updateEvent rnd (cycleProgress ?s + 1) (activeEvent ?s) = Some ev"
    unfolding updateEvent_def by blast
  from wf have "\<forall>c \<in> set COMMODITIES. prices ?s (id_c c) \<noteq> None"
    by (simp add: wellFormed_def)
  from updatePrices_total [OF this] obtain ps
    where ps: "updatePrices ev (priceDraw rnd) COMMODITIES (prices ?s) = Some ps"
      and dom: "\<forall>i. (ps i \<noteq> None) = (prices ?s i \<noteq> None)"
    by blast
  obtain nextCash paid rate nextDay where tax: "taxB rnd ?s = (nextCash, paid, rate, nextDay)"
    by (cases "taxB rnd ?s") auto
  from wf have "\<forall>f \<in> set (facilities ?s). findCommodity (commodityId_f f) \<noteq> None"
    by (simp add: wellFormed_def)
  from produceAll_total [OF this, of "nextCash \<le> 0" "inventory ?s" "[]" 0]
  obtain items' facs' cost'
    where run: "produceAll (nextCash \<le> 0) (inventory ?s, [], 0) (facilities ?s)
                = Some (items', facs', cost')"
      and items: "map commodityId_i items' = map commodityId_i (inventory ?s)"
    by blast
  from produceAll_facility_ids [OF run]
  have facs: "map commodityId_f facs' = map commodityId_f (facilities ?s)" .
  from ev ps tax run obtain app' where app': "tickB rnd app = Some app'"
    and fields: "prices (gameState app') = ps" "inventory (gameState app') = items'"
      "facilities (gameState app') = facs'"
    by (simp add: tickB_def finishTick_def Let_def)
  from wellFormed_after [OF wf dom items facs fields] app' show ?thesis by blast
qed

lemma tickA_total:
  assumes wf: "wellFormed (gameState app)" and draw: "poolDrawInRange rnd"
  shows "\<exists>app'. tickA rnd app = Some app' \<and> wellFormed (gameState app')"
proof -
  let ?s = "gameState app"
  from trigger_total [OF draw] obtain ev
    where ev: "updateEvent rnd (cycleProgress ?s + 1) (activeEvent ?s) = Some ev"
    unfolding updateEvent_def by blast
  from wf have "\<forall>c \<in> set COMMODITIES. prices ?s (id_c c) \<noteq> None"
    by (simp add: wellFormed_def)
  from updatePrices_total [OF this] obtain ps
    where ps: "updatePrices (activeEvent ?s) (priceDraw rnd) COMMODITIES (prices ?s) = Some ps"
      and dom: "\<forall>i. (ps i \<noteq> None) = (prices ?s i \<noteq> None)"
    by blast
  from wf dom have "\<forall>item \<in> set (inventory ?s). ps (commodityId_i item) \<noteq> None"
    by (simp add: wellFormed_def)
  from inventoryValueAcc_total [OF this] obtain inv
    where inv: "inventoryValueAcc ps 0 (inventory ?s) = Some inv"
    by blast
  from wf have found: "\<forall>f \<in> set (facilities ?s). findCommodity (commodityId_f f) \<noteq> None"
    by (simp add: wellFormed_def)
  from infrastructureValueAcc_total [OF this] obtain infra
    where infra: "infrastructureValueAcc 0 (facilities ?s) = Some infra"
    by blast
  from inv infra have "\<exists>t. taxA rnd ?s ps = Some t"
    by (simp add: taxA_def Let_def)
  then obtain nextCash paid rate nextDay
    where tax: "taxA rnd ?s ps = Some (nextCash, paid, rate, nextDay)"
    by (metis prod_cases4)
  from produceAll_total [OF found, of "nextCash \<le> 0" "inventory ?s" "[]" 0]
  obtain items' facs' cost'
    where run: "produceAll (nextCash \<le> 0) (inventory ?s, [], 0) (facilities ?s)
                = Some (items', facs', cost')"
      and items: "map commodityId_i items' = map commodityId_i (inventory ?s)"
    by blast
  from produceAll_facility_ids [OF run]
  have facs: "map commodityId_f facs' = map commodityId_f (facilities ?s)" .
  from ev ps tax run obtain app' where app': "tickA rnd app = Some app'"
    and fields: "prices (gameState app') = ps" "inventory (gameState app') = items'"
      "facilities (gameState app') = facs'"
    by (simp add: tickA_def finishTick_def Let_def)
  from wellFormed_after [OF wf dom items facs fields] app' show ?thesis by blast
qed

lemma ticks_total:
  assumes step: "\<forall>r a. wellFormed (gameState a) \<and> poolDrawInRange r \<longrightarrow>
                  (\<exists>a'. tick r a = Some a' \<and> wellFormed (gameState a'))"
  shows "wellFormed (gameState app) \<Longrightarrow> \<forall>r \<in> set rs. poolDrawInRange r \<Longrightarrow>
         \<exists>app'. ticks tick rs app = Some app' \<and> wellFormed (gameState app')"
proof (induction rs arbitrary: app)
  case Nil
  then show ?case by simp
next
  case (Cons r rs)
  from step Cons.prems obtain a where a: "tick r app = Some a" and wf: "wellFormed (gameState a)"
    by (metis list.set_intros(1))
  from Cons.prems(2) have "\<forall>r \<in> set rs. poolDrawInRange r" by simp
  from Cons.IH [OF wf this] a show ?case by simp
qed

lemma runs_never_throw:
  assumes "wellFormed (gameState app)" and "\<forall>r \<in> set rs. poolDrawInRange r"
  shows "(\<exists>app'. ticks tickA rs app = Some app' \<and> wellFormed (gameState app')) \<and>
         (\<exists>app'. ticks tickB rs app = Some app' \<and> wellFormed (gameState app'))"
  using ticks_total [of tickA app rs] ticks_total [of tickB app rs] tickA_total tickB_total assms
  by blast

lemma initial_wellFormed: "wellFormed (gameState (initialApp rate))"
  by (simp add: wellFormed_def action_eval)


lemma trade_keeps_ids:
  "map commodityId_i
     (map (\<lambda>item. if commodityId_i item = i then item\<lparr>quantity := quantity item + q\<rparr> else item) xs)
   = map commodityId_i xs"
  by (induction xs) auto

lemma toggle_keeps_ids:
  "map commodityId_f
     (map (\<lambda>f. if commodityId_f f = i then f\<lparr>isProducing := \<not> isProducing f\<rparr> else f) fs)
   = map commodityId_f fs"
  by (induction fs) auto

lemma upgrade_keeps_ids:
  "map commodityId_f (map (\<lambda>f. if commodityId_f f = i then f\<lparr>level := level f + 1\<rparr> else f) fs)
   = map commodityId_f fs"
  by (induction fs) auto

lemma wellFormed_fields:
  "wellFormed s \<Longrightarrow> prices s' = prices s \<Longrightarrow>
   commodityId_i ` set (inventory s') \<subseteq> commodityId_i ` set (inventory s) \<Longrightarrow>
   commodityId_f ` set (facilities s') \<subseteq> commodityId_f ` set (facilities s) \<union>
     {i. findCommodity i \<noteq> None} \<Longrightarrow>
   wellFormed s'"
  unfolding wellFormed_def by (auto simp: image_iff subset_iff)


lemma tradeUpdater_fields:
  assumes tu: "tradeUpdater i q app = Some app'"
  shows "prices (gameState app') = prices (gameState app) \<and>
      map commodityId_i (inventory (gameState app')) = map commodityId_i (inventory (gameState app)) \<and>
      facilities (gameState app') = facilities (gameState app)"
proof -
  from tu obtain mp where mp: "prices (gameState app) i = Some mp"
    by (cases "prices (gameState app) i") (simp_all add: tradeUpdater_def)
  let ?rejected = "(0 < q \<and> cash (gameState app) < of_int q * currentPrice mp) \<or>
         (q < 0 \<and> (case owned (gameState app) i of None \<Rightarrow> True | Some n \<Rightarrow> n < \<bar>q\<bar>))"
  show ?thesis
  proof (cases ?rejected)
    case True
    from tradeUpdater_reject [OF mp True] tu show ?thesis by simp
  next
    case False
    then have buy: "\<not> (0 < q \<and> cash (gameState app) < of_int q * currentPrice mp)"
      and sell: "\<not> (q < 0 \<and> (case find (\<lambda>it. commodityId_i it = i) (inventory (gameState app)) of
                   None \<Rightarrow> True | Some it \<Rightarrow> quantity it < \<bar>q\<bar>))"
      by (auto simp: owned_def split: option.splits)
    from tu mp buy sell have "\<exists>p s c l. app' = app\<lparr>cyclePurchasesRef := p, cycleSalesRef := s,
        gameState := (gameState app)\<lparr>cash := c,
          inventory := map (\<lambda>item. if commodityId_i item = i
                                      then item\<lparr>quantity := quantity item + q\<rparr> else item)
                         (inventory (gameState app)),
          lifetime := l\<rparr>\<rparr>"
      unfolding tradeUpdater_def Let_def by (simp only: option.case if_False) blast
    then show ?thesis by (auto simp: trade_keeps_ids)
  qed
qed

lemma trade_wellFormed:
  assumes wf: "wellFormed (gameState app)"
    and "handleTradeA i q app = Some app' \<or> handleTradeB i q app = Some app'"
  shows "wellFormed (gameState app')"
proof -
  from assms(2) have "app' = app \<or> tradeUpdater i q app = Some app'"
    by (auto simp: handleTradeA_def handleTradeB_def split: if_splits)
  then show ?thesis
  proof
    assume "app' = app"
    with wf show ?thesis by simp
  next
    assume "tradeUpdater i q app = Some app'"
    from tradeUpdater_fields [OF this]
    have p: "prices (gameState app') = prices (gameState app)"
      and m: "map commodityId_i (inventory (gameState app')) = map commodityId_i (inventory (gameState app))"
      and f: "facilities (gameState app') = facilities (gameState app)"
      by simp_all
    from m have "set (map commodityId_i (inventory (gameState app')))
        = set (map commodityId_i (inventory (gameState app)))"
      by simp
    then have ids: "commodityId_i ` set (inventory (gameState app'))
        = commodityId_i ` set (inventory (gameState app))"
      by simp
    show ?thesis
      by (rule wellFormed_fields [OF wf p]) (simp_all add: ids f)
  qed
qed

lemma unlockUpdater_wellFormed:
  "wellFormed s \<Longrightarrow> findCommodity i \<noteq> None \<Longrightarrow> wellFormed (unlockUpdater i cost s)"
  by (simp add: unlockUpdater_def wellFormed_def)

lemma upgradeUpdater_wellFormed:
  assumes wf: "wellFormed s" and up: "upgradeUpdater i s = Some s'"
  shows "wellFormed s'"
proof -
  have ids: "commodityId_f ` set (map (\<lambda>f. if commodityId_f f = i then f\<lparr>level := level f + 1\<rparr> else f)
                (facilities s)) = commodityId_f ` set (facilities s)"
    by (metis upgrade_keeps_ids set_map)
  from up have "s' = s \<or> (\<exists>c l. s' = s\<lparr>cash := c,
      facilities := map (\<lambda>f. if commodityId_f f = i then f\<lparr>level := level f + 1\<rparr> else f)
                      (facilities s),
      lifetime := l\<rparr>)"
    by (auto simp: upgradeUpdater_def Let_def split: option.splits if_splits)
  then show ?thesis
  proof
    assume "s' = s"
    with wf show ?thesis by simp
  next
    assume "\<exists>c l. s' = s\<lparr>cash := c,
      facilities := map (\<lambda>f. if commodityId_f f = i then f\<lparr>level := level f + 1\<rparr> else f)
                      (facilities s),
      lifetime := l\<rparr>"
    then obtain c l where s': "s' = s\<lparr>cash := c,
      facilities := map (\<lambda>f. if commodityId_f f = i then f\<lparr>level := level f + 1\<rparr> else f)
                      (facilities s),
      lifetime := l\<rparr>"
      by blast
    show ?thesis
      by (rule wellFormed_fields [OF wf]) (use ids in \<open>simp_all add: s'\<close>)
  qed
qed

lemma sellUpdater_wellFormed:
  assumes wf: "wellFormed s" and sell: "sellUpdater i s = Some s'"
  shows "wellFormed s'"
proof -
  from sell have "s' = s \<or> (\<exists>c. s' = s\<lparr>cash := c,
      facilities := filter (\<lambda>f. commodityId_f f \<noteq> i) (facilities s)\<rparr>)"
    by (auto simp: sellUpdater_def Let_def split: option.splits)
  then show ?thesis
  proof
    assume "s' = s"
    with wf show ?thesis by simp
  next
    assume "\<exists>c. s' = s\<lparr>cash := c, facilities := filter (\<lambda>f. commodityId_f f \<noteq> i) (facilities s)\<rparr>"
    then obtain c where s': "s' = s\<lparr>cash := c,
        facilities := filter (\<lambda>f. commodityId_f f \<noteq> i) (facilities s)\<rparr>"
      by blast
    show ?thesis
      by (rule wellFormed_fields [OF wf]) (auto simp: s')
  qed
qed

lemma toggleUpdater_wellFormed:
  assumes wf: "wellFormed s"
  shows "wellFormed (toggleUpdater i s)"
proof -
  have "commodityId_f ` set (map (\<lambda>f. if commodityId_f f = i then f\<lparr>isProducing := \<not> isProducing f\<rparr> else f)
                (facilities s)) = commodityId_f ` set (facilities s)"
    by (metis toggle_keeps_ids set_map)
  then show ?thesis
    by (intro wellFormed_fields [OF wf]) (simp_all add: toggleUpdater_def)
qed

lemma facility_actions_wellFormed:
  assumes wf: "wellFormed (gameState app)"
  shows "(handleUnlockFacilityA i app = Some app' \<longrightarrow> wellFormed (gameState app')) \<and>
         (handleUnlockFacilityB i app = Some app' \<longrightarrow> wellFormed (gameState app')) \<and>
         (handleUpgradeFacilityA i app = Some app' \<longrightarrow> wellFormed (gameState app')) \<and>
         (handleUpgradeFacilityB i app = Some app' \<longrightarrow> wellFormed (gameState app')) \<and>
         (handleSellFacilityA i app = Some app' \<longrightarrow> wellFormed (gameState app')) \<and>
         wellFormed (gameState (handleToggleProductionA i app)) \<and>
         wellFormed (gameState (handleToggleProductionB i app))"
proof -
  have unlockA: "handleUnlockFacilityA i app = Some app' \<longrightarrow> wellFormed (gameState app')"
    using wf unlockUpdater_wellFormed [of "gameState app" i]
    by (auto simp: handleUnlockFacilityA_def split: if_splits option.splits)
  have unlockB: "handleUnlockFacilityB i app = Some app' \<longrightarrow> wellFormed (gameState app')"
    using wf unlockUpdater_wellFormed [of "gameState app" i]
    by (auto simp: handleUnlockFacilityB_def split: option.splits)
  have upgradeA: "handleUpgradeFacilityA i app = Some app' \<longrightarrow> wellFormed (gameState app')"
    using wf upgradeUpdater_wellFormed [of "gameState app" i]
    by (auto simp: handleUpgradeFacilityA_def split: if_splits)
  have upgradeB: "handleUpgradeFacilityB i app = Some app' \<longrightarrow> wellFormed (gameState app')"
    using wf upgradeUpdater_wellFormed [of "gameState app" i]
    by (auto simp: handleUpgradeFacilityB_def)
  have sellA: "handleSellFacilityA i app = Some app' \<longrightarrow> wellFormed (gameState app')"
    using wf sellUpdater_wellFormed [of "gameState app" i]
    by (auto simp: handleSellFacilityA_def split: if_splits)
  have toggle: "wellFormed (gameState (handleToggleProductionA i app)) \<and>
         wellFormed (gameState (handleToggleProductionB i app))"
    using wf toggleUpdater_wellFormed [of "gameState app" i]
    by (simp add: handleToggleProductionA_def handleToggleProductionB_def)
  from unlockA unlockB upgradeA upgradeB sellA toggle show ?thesis by blast
qed

lemma credit_actions_wellFormed:
  assumes "wellFormed (gameState app)"
  shows "wellFormed (gameState (takeLoanA amount app)) \<and> wellFormed (gameState (takeLoanB amount app)) \<and>
         wellFormed (gameState (handleRepayA app)) \<and> wellFormed (gameState (handleRepayB app))"
  using assms
  by (simp add: wellFormed_def takeLoanA_def takeLoanB_def loanUpdater_def
      handleRepayA_def handleRepayB_def repayUpdater_def)

section \<open>The debt between ticks\<close>

text \<open>
  Trading and the facility actions leave the debt as it is; only \<open>takeLoan\<close>,
  \<open>handleRepay\<close> and the tick write it.
\<close>

lemma tradeUpdater_debt:
  assumes tu: "tradeUpdater i q app = Some app'"
  shows "debt (gameState app') = debt (gameState app)"
proof -
  from tu obtain mp where mp: "prices (gameState app) i = Some mp"
    by (cases "prices (gameState app) i") (simp_all add: tradeUpdater_def)
  let ?rejected = "(0 < q \<and> cash (gameState app) < of_int q * currentPrice mp) \<or>
         (q < 0 \<and> (case owned (gameState app) i of None \<Rightarrow> True | Some n \<Rightarrow> n < \<bar>q\<bar>))"
  show ?thesis
  proof (cases ?rejected)
    case True
    from tradeUpdater_reject [OF mp True] tu show ?thesis by simp
  next
    case False
    then have buy: "\<not> (0 < q \<and> cash (gameState app) < of_int q * currentPrice mp)"
      and sell: "\<not> (q < 0 \<and> (case find (\<lambda>it. commodityId_i it = i) (inventory (gameState app)) of
                   None \<Rightarrow> True | Some it \<Rightarrow> quantity it < \<bar>q\<bar>))"
      by (auto simp: owned_def split: option.splits)
    from tu mp buy sell have "\<exists>p s c l. app' = app\<lparr>cyclePurchasesRef := p, cycleSalesRef := s,
        gameState := (gameState app)\<lparr>cash := c,
          inventory := map (\<lambda>item. if commodityId_i item = i
                                      then item\<lparr>quantity := quantity item + q\<rparr> else item)
                         (inventory (gameState app)),
          lifetime := l\<rparr>\<rparr>"
      unfolding tradeUpdater_def Let_def by (simp only: option.case if_False) blast
    then show ?thesis by auto
  qed
qed

lemma upgradeUpdater_debt: "upgradeUpdater i s = Some s' \<Longrightarrow> debt s' = debt s"
  by (auto simp: upgradeUpdater_def Let_def split: option.splits if_splits)

lemma sellUpdater_debt: "sellUpdater i s = Some s' \<Longrightarrow> debt s' = debt s"
  by (auto simp: sellUpdater_def Let_def split: option.splits)

lemma actions_keep_debt:
  "(handleTradeA i q app = Some app' \<longrightarrow> debt (gameState app') = debt (gameState app)) \<and>
   (handleTradeB i q app = Some app' \<longrightarrow> debt (gameState app') = debt (gameState app)) \<and>
   (handleUnlockFacilityA i app = Some app' \<longrightarrow> debt (gameState app') = debt (gameState app)) \<and>
   (handleUnlockFacilityB i app = Some app' \<longrightarrow> debt (gameState app') = debt (gameState app)) \<and>
   (handleUpgradeFacilityA i app = Some app' \<longrightarrow> debt (gameState app') = debt (gameState app)) \<and>
   (handleUpgradeFacilityB i app = Some app' \<longrightarrow> debt (gameState app') = debt (gameState app)) \<and>
   (handleSellFacilityA i app = Some app' \<longrightarrow> debt (gameState app') = debt (gameState app)) \<and>
   debt (gameState (handleToggleProductionA i app)) = debt (gameState app) \<and>
   debt (gameState (handleToggleProductionB i app)) = debt (gameState app)"
proof -
  have tradeA: "handleTradeA i q app = Some app' \<longrightarrow> debt (gameState app') = debt (gameState app)"
    using tradeUpdater_debt [of i q app app']
    by (auto simp: handleTradeA_def split: if_splits)
  have tradeB: "handleTradeB i q app = Some app' \<longrightarrow> debt (gameState app') = debt (gameState app)"
    using tradeUpdater_debt [of i q app app']
    by (auto simp: handleTradeB_def split: if_splits)
  have unlockA: "handleUnlockFacilityA i app = Some app' \<longrightarrow> debt (gameState app') = debt (gameState app)"
    by (auto simp: handleUnlockFacilityA_def unlockUpdater_def split: if_splits option.splits)
  have unlockB: "handleUnlockFacilityB i app = Some app' \<longrightarrow> debt (gameState app') = debt (gameState app)"
    by (auto simp: handleUnlockFacilityB_def unlockUpdater_def split: option.splits)
  have upgradeA: "handleUpgradeFacilityA i app = Some app' \<longrightarrow> debt (gameState app') = debt (gameState app)"
    using upgradeUpdater_debt [of i "gameState app"]
    by (auto simp: handleUpgradeFacilityA_def split: if_splits)
  have upgradeB: "handleUpgradeFacilityB i app = Some app' \<longrightarrow> debt (gameState app') = debt (gameState app)"
    using upgradeUpdater_debt [of i "gameState app"]
    by (auto simp: handleUpgradeFacilityB_def)
  have sellA: "handleSellFacilityA i app = Some app' \<longrightarrow> debt (gameState app') = debt (gameState app)"
    using sellUpdater_debt [of i "gameState app"]
    by (auto simp: handleSellFacilityA_def split: if_splits)
  have toggle: "debt (gameState (handleToggleProductionA i app)) = debt (gameState app) \<and>
      debt (gameState (handleToggleProductionB i app)) = debt (gameState app)"
    by (simp add: handleToggleProductionA_def handleToggleProductionB_def toggleUpdater_def)
  from tradeA tradeB unlockA unlockB upgradeA upgradeB sellA toggle show ?thesis by blast
qed

section \<open>The claims\<close>

subsection \<open>C1: order of the event update and the price update\<close>

text \<open>
  Variant A does not do what C1 says. On the last day of the market-wide event
  (multiplier 0.5) the updated event is none, and a price computed from it would stay at
  80 for oil under a zero shock; the tick of variant A stores 76, the price pulled towards
  the target 40 of the event it has just cleared.
\<close>

theorem stale_event_counterexample:
  "updateEvent calmDraws (cycleProgress (gameState (expiringApp INITIAL_TAX_RATE_A)) + 1)
     (activeEvent (gameState (expiringApp INITIAL_TAX_RATE_A))) = Some None \<and>
   prices (gameState (expiringApp INITIAL_TAX_RATE_A)) ''oil'' \<noteq> None \<and>
   currentPrice (nextPrice (COMMODITIES ! 0) None (priceDraw calmDraws ''oil'')
     (the (prices (gameState (expiringApp INITIAL_TAX_RATE_A)) ''oil''))) = 80 \<and>
   tickA calmDraws (expiringApp INITIAL_TAX_RATE_A) \<noteq> None \<and>
   prices (gameState (the (tickA calmDraws (expiringApp INITIAL_TAX_RATE_A)))) ''oil'' \<noteq> None \<and>
   currentPrice (the (prices (gameState (the (tickA calmDraws (expiringApp INITIAL_TAX_RATE_A))))
     ''oil'')) = 76"
proof -
  have ev: "updateEvent calmDraws (cycleProgress (gameState (expiringApp INITIAL_TAX_RATE_A)) + 1)
     (activeEvent (gameState (expiringApp INITIAL_TAX_RATE_A))) = Some None"
    by (simp add: tick_eval expiringApp_def)
  have claimed: "prices (gameState (expiringApp INITIAL_TAX_RATE_A)) ''oil'' \<noteq> None \<and>
      currentPrice (nextPrice (COMMODITIES ! 0) None (priceDraw calmDraws ''oil'')
        (the (prices (gameState (expiringApp INITIAL_TAX_RATE_A)) ''oil''))) = 80"
    by (simp add: tick_eval expiringApp_def)
  have actual: "tickA calmDraws (expiringApp INITIAL_TAX_RATE_A) \<noteq> None \<and>
      prices (gameState (the (tickA calmDraws (expiringApp INITIAL_TAX_RATE_A)))) ''oil'' \<noteq> None \<and>
      currentPrice (the (prices (gameState (the (tickA calmDraws (expiringApp INITIAL_TAX_RATE_A))))
        ''oil'')) = 76"
    using expiring_runA by auto
  from ev claimed actual show ?thesis by blast
qed

text \<open>
  C1, as amended. In both variants a tick stores the updated event (counted down, cleared
  at 0, possibly replaced by a new one) and a new price for every commodity of the
  catalog, computed from the price before the tick. Variant B updates the event first and
  computes every price from the updated event. Variant A computes every price first, from
  the event that was active when the tick began, and updates the event afterwards. The
  new price is the floor or the price pulled a tenth of the way to the target and shocked;
  the target is the base price, times the event's multiplier when the event's category is
  the commodity's or \<open>'ALL'\<close>.
\<close>

theorem event_before_prices:
  assumes "c \<in> set COMMODITIES"
  shows
  "(tickB rnd app = Some app' \<longrightarrow>
      updateEvent rnd (cycleProgress (gameState app) + 1) (activeEvent (gameState app))
        = Some (activeEvent (gameState app')) \<and>
      (\<exists>p0. prices (gameState app) (id_c c) = Some p0 \<and>
            prices (gameState app') (id_c c)
              = Some (nextPrice c (activeEvent (gameState app')) (priceDraw rnd (id_c c)) p0))) \<and>
   (tickA rnd app = Some app' \<longrightarrow>
      updateEvent rnd (cycleProgress (gameState app) + 1) (activeEvent (gameState app))
        = Some (activeEvent (gameState app')) \<and>
      (\<exists>p0. prices (gameState app) (id_c c) = Some p0 \<and>
            prices (gameState app') (id_c c)
              = Some (nextPrice c (activeEvent (gameState app)) (priceDraw rnd (id_c c)) p0))) \<and>
   currentPrice (nextPrice c ev r p) =
     max (basePrice c * (1 / 10))
         ((currentPrice p + (targetPrice c ev - currentPrice p) * (1 / 10)) *
          (1 + (r - 1 / 2) * 2 * volatility c)) \<and>
   targetPrice c None = basePrice c \<and>
   targetPrice c (Some e) =
     (if category_e e = Category (category_c c) \<or> category_e e = ALL_c
      then basePrice c * multiplier e else basePrice c)"
proof -
  have b: "tickB rnd app = Some app' \<longrightarrow>
      updateEvent rnd (cycleProgress (gameState app) + 1) (activeEvent (gameState app))
        = Some (activeEvent (gameState app')) \<and>
      (\<exists>p0. prices (gameState app) (id_c c) = Some p0 \<and>
            prices (gameState app') (id_c c)
              = Some (nextPrice c (activeEvent (gameState app')) (priceDraw rnd (id_c c)) p0))"
    using tickB_prices [of rnd app app'] updatePrices_at [OF _ commodity_ids_distinct assms]
    by blast
  have a: "tickA rnd app = Some app' \<longrightarrow>
      updateEvent rnd (cycleProgress (gameState app) + 1) (activeEvent (gameState app))
        = Some (activeEvent (gameState app')) \<and>
      (\<exists>p0. prices (gameState app) (id_c c) = Some p0 \<and>
            prices (gameState app') (id_c c)
              = Some (nextPrice c (activeEvent (gameState app)) (priceDraw rnd (id_c c)) p0))"
    using tickA_prices [of rnd app app'] updatePrices_at [OF _ commodity_ids_distinct assms]
    by blast
  have t: "targetPrice c None = basePrice c \<and>
   targetPrice c (Some e) =
     (if category_e e = Category (category_c c) \<or> category_e e = ALL_c
      then basePrice c * multiplier e else basePrice c)"
    by (simp add: targetPrice_def)
  from a b t nextPrice_current [of c ev r p] show ?thesis by blast
qed

text \<open>Oil on the last day of the market-wide event, one tick of each variant.\<close>

theorem event_before_prices_witness:
  "COMMODITIES ! 0 \<in> set COMMODITIES \<and>
   tickB calmDraws (expiringApp INITIAL_TAX_RATE_B) \<noteq> None \<and>
   tickA calmDraws (expiringApp INITIAL_TAX_RATE_A) \<noteq> None \<and>
   (\<exists>p0. prices (gameState (expiringApp INITIAL_TAX_RATE_B)) (id_c (COMMODITIES ! 0)) = Some p0 \<and>
      prices (gameState (the (tickB calmDraws (expiringApp INITIAL_TAX_RATE_B)))) (id_c (COMMODITIES ! 0))
        = Some (nextPrice (COMMODITIES ! 0)
                  (activeEvent (gameState (the (tickB calmDraws (expiringApp INITIAL_TAX_RATE_B)))))
                  (priceDraw calmDraws (id_c (COMMODITIES ! 0))) p0)) \<and>
   (\<exists>p0. prices (gameState (expiringApp INITIAL_TAX_RATE_A)) (id_c (COMMODITIES ! 0)) = Some p0 \<and>
      prices (gameState (the (tickA calmDraws (expiringApp INITIAL_TAX_RATE_A)))) (id_c (COMMODITIES ! 0))
        = Some (nextPrice (COMMODITIES ! 0)
                  (activeEvent (gameState (expiringApp INITIAL_TAX_RATE_A)))
                  (priceDraw calmDraws (id_c (COMMODITIES ! 0))) p0))"
proof -
  have mem: "COMMODITIES ! 0 \<in> set COMMODITIES" by (simp add: COMMODITIES_def)
  have runB: "tickB calmDraws (expiringApp INITIAL_TAX_RATE_B) \<noteq> None"
    using expiring_runB by auto
  then have someB: "tickB calmDraws (expiringApp INITIAL_TAX_RATE_B)
      = Some (the (tickB calmDraws (expiringApp INITIAL_TAX_RATE_B)))"
    by simp
  have runA: "tickA calmDraws (expiringApp INITIAL_TAX_RATE_A) \<noteq> None"
    using expiring_runA by auto
  then have someA: "tickA calmDraws (expiringApp INITIAL_TAX_RATE_A)
      = Some (the (tickA calmDraws (expiringApp INITIAL_TAX_RATE_A)))"
    by simp
  from event_before_prices [OF mem, of calmDraws "expiringApp INITIAL_TAX_RATE_B"
      "the (tickB calmDraws (expiringApp INITIAL_TAX_RATE_B))"] someB
  have b: "\<exists>p0. prices (gameState (expiringApp INITIAL_TAX_RATE_B)) (id_c (COMMODITIES ! 0)) = Some p0 \<and>
      prices (gameState (the (tickB calmDraws (expiringApp INITIAL_TAX_RATE_B)))) (id_c (COMMODITIES ! 0))
        = Some (nextPrice (COMMODITIES ! 0)
                  (activeEvent (gameState (the (tickB calmDraws (expiringApp INITIAL_TAX_RATE_B)))))
                  (priceDraw calmDraws (id_c (COMMODITIES ! 0))) p0)"
    by blast
  from event_before_prices [OF mem, of calmDraws "expiringApp INITIAL_TAX_RATE_A"
      "the (tickA calmDraws (expiringApp INITIAL_TAX_RATE_A))"] someA
  have a: "\<exists>p0. prices (gameState (expiringApp INITIAL_TAX_RATE_A)) (id_c (COMMODITIES ! 0)) = Some p0 \<and>
      prices (gameState (the (tickA calmDraws (expiringApp INITIAL_TAX_RATE_A)))) (id_c (COMMODITIES ! 0))
        = Some (nextPrice (COMMODITIES ! 0)
                  (activeEvent (gameState (expiringApp INITIAL_TAX_RATE_A)))
                  (priceDraw calmDraws (id_c (COMMODITIES ! 0))) p0)"
    by blast
  from mem runA runB a b show ?thesis by blast
qed

subsection \<open>C2: trading\<close>

text \<open>
  C2. While the game is live (not over and, in variant A, not paused), for a commodity
  that has a price \<open>p\<close> and an inventory entry holding \<open>n\<close> units, and a quantity
  \<open>q > 0\<close>: buying \<open>q\<close> succeeds when \<open>q * p \<le> cash\<close>, leaving \<open>cash - q * p\<close> and
  \<open>n + q\<close> units, and returns the state unchanged when \<open>cash < q * p\<close>; selling \<open>q\<close>
  succeeds when \<open>q \<le> n\<close>, leaving \<open>cash + q * p\<close> and \<open>n - q\<close> units, and returns the
  state unchanged when \<open>n < q\<close>. Unchanged is the whole component state, the cycle
  counters included.
\<close>

theorem trade_succeeds_or_leaves_state:
  assumes "(handleTrade = handleTradeA \<and> \<not> isPaused app) \<or> handleTrade = handleTradeB"
    and "\<not> isGameOver app"
    and "prices (gameState app) i = Some mp"
    and "owned (gameState app) i = Some n"
    and "0 < q"
  shows "(of_int q * currentPrice mp \<le> cash (gameState app) \<longrightarrow>
            (\<exists>app'. handleTrade i q app = Some app' \<and>
               cash (gameState app') = cash (gameState app) - of_int q * currentPrice mp \<and>
               owned (gameState app') i = Some (n + q))) \<and>
         (cash (gameState app) < of_int q * currentPrice mp \<longrightarrow> handleTrade i q app = Some app) \<and>
         (q \<le> n \<longrightarrow>
            (\<exists>app'. handleTrade i (- q) app = Some app' \<and>
               cash (gameState app') = cash (gameState app) + of_int q * currentPrice mp \<and>
               owned (gameState app') i = Some (n - q))) \<and>
         (n < q \<longrightarrow> handleTrade i (- q) app = Some app)"
proof -
  from assms(1,2) have upd: "handleTrade i q app = tradeUpdater i q app"
      "handleTrade i (- q) app = tradeUpdater i (- q) app"
    by (auto simp: handleTradeA_def handleTradeB_def)
  have buy: "of_int q * currentPrice mp \<le> cash (gameState app) \<longrightarrow>
            (\<exists>app'. tradeUpdater i q app = Some app' \<and>
               cash (gameState app') = cash (gameState app) - of_int q * currentPrice mp \<and>
               owned (gameState app') i = Some (n + q))"
    using tradeUpdater_accept [OF assms(3,4), of q] assms(5) by blast
  have nobuy: "cash (gameState app) < of_int q * currentPrice mp \<longrightarrow> tradeUpdater i q app = Some app"
    using tradeUpdater_reject [OF assms(3), of q] assms(5) by blast
  have sell: "q \<le> n \<longrightarrow>
            (\<exists>app'. tradeUpdater i (- q) app = Some app' \<and>
               cash (gameState app') = cash (gameState app) + of_int q * currentPrice mp \<and>
               owned (gameState app') i = Some (n - q))"
    using tradeUpdater_accept [OF assms(3,4), of "- q"] assms(5) by auto
  have nosell: "n < q \<longrightarrow> tradeUpdater i (- q) app = Some app"
    using tradeUpdater_reject [OF assms(3), of "- q"] assms(4,5) by auto
  from buy nobuy sell nosell show ?thesis unfolding upd by blast
qed

text \<open>
  The scenario of the specification: from cash 5000, buying 10 oil at 80 leaves 4200 and
  10 units; selling 10 oil while holding none leaves the state as it was.
\<close>

theorem trade_succeeds_or_leaves_state_witness:
  "\<not> isPaused (initialApp INITIAL_TAX_RATE_A) \<and> \<not> isGameOver (initialApp INITIAL_TAX_RATE_A) \<and>
   prices (gameState (initialApp INITIAL_TAX_RATE_A)) ''oil''
     = Some \<lparr>id_p = ''oil'', currentPrice = 80, history = [80], trend = stable\<rparr> \<and>
   owned (gameState (initialApp INITIAL_TAX_RATE_A)) ''oil'' = Some 0 \<and> (0 :: int) < 10 \<and>
   map_option (\<lambda>a. (cash (gameState a), owned (gameState a) ''oil''))
     (handleTradeA ''oil'' 10 (initialApp INITIAL_TAX_RATE_A)) = Some (4200, Some 10) \<and>
   handleTradeA ''oil'' (- 10) (initialApp INITIAL_TAX_RATE_A) = Some (initialApp INITIAL_TAX_RATE_A)"
proof -
  note f = oil_trade_facts
  have live: "(handleTradeA = handleTradeA \<and> \<not> isPaused (initialApp INITIAL_TAX_RATE_A)) \<or>
              handleTradeA = handleTradeB"
    using f by simp
  have over: "\<not> isGameOver (initialApp INITIAL_TAX_RATE_A)" using f by simp
  have price: "prices (gameState (initialApp INITIAL_TAX_RATE_A)) ''oil''
     = Some \<lparr>id_p = ''oil'', currentPrice = 80, history = [80], trend = stable\<rparr>"
    using f by simp
  have held: "owned (gameState (initialApp INITIAL_TAX_RATE_A)) ''oil'' = Some 0" using f by simp
  have pos: "(0 :: int) < 10" by simp
  from trade_succeeds_or_leaves_state [OF live over price held pos]
  have "handleTradeA ''oil'' (- 10) (initialApp INITIAL_TAX_RATE_A) = Some (initialApp INITIAL_TAX_RATE_A)"
    by simp
  with f pos show ?thesis by blast
qed

subsection \<open>C3: the price floor\<close>

text \<open>
  C3. For every commodity of the catalog and every run of at least one tick, of either
  variant and whatever the draws and the active event are, the commodity's current price
  after the run is at least 0.1 times its base price.
\<close>

theorem price_floor_after_ticks:
  assumes "ticks tickA rs app = Some app' \<or> ticks tickB rs app = Some app'"
    and "rs \<noteq> []" and "c \<in> set COMMODITIES"
  shows "\<exists>p. prices (gameState app') (id_c c) = Some p \<and>
             basePrice c * (1 / 10) \<le> currentPrice p"
proof -
  from assms(1,2) consider r a where "tickA r a = Some app'" | r a where "tickB r a = Some app'"
    using ticks_last [of tickA rs app app'] ticks_last [of tickB rs app app'] by blast
  then show ?thesis
  proof cases
    case 1
    from tickA_prices [OF 1] updatePrices_at [OF _ commodity_ids_distinct assms(3)]
    show ?thesis using nextPrice_floor by fastforce
  next
    case 2
    from tickB_prices [OF 2] updatePrices_at [OF _ commodity_ids_distinct assms(3)]
    show ?thesis using nextPrice_floor by fastforce
  qed
qed

text \<open>
  Gas at its floor of 0.4 under the energy glut, with the lowest draw twice: the shocked
  price 0.39 is below the floor and the stored price is 0.4, in both variants.
\<close>

theorem price_floor_after_ticks_witness:
  "ticks tickA [lowDraws, lowDraws] (gasCrashApp INITIAL_TAX_RATE_A) \<noteq> None \<and>
   ticks tickB [lowDraws, lowDraws] (gasCrashApp INITIAL_TAX_RATE_B) \<noteq> None \<and>
   [lowDraws, lowDraws] \<noteq> [] \<and> COMMODITIES ! 1 \<in> set COMMODITIES \<and>
   id_c (COMMODITIES ! 1) = ''gas'' \<and> basePrice (COMMODITIES ! 1) * (1 / 10) = 4 / 10 \<and>
   (\<exists>p. prices (gameState (the (ticks tickA [lowDraws, lowDraws] (gasCrashApp INITIAL_TAX_RATE_A))))
           (id_c (COMMODITIES ! 1)) = Some p \<and>
        basePrice (COMMODITIES ! 1) * (1 / 10) \<le> currentPrice p) \<and>
   (\<exists>p. prices (gameState (the (ticks tickB [lowDraws, lowDraws] (gasCrashApp INITIAL_TAX_RATE_B))))
           (id_c (COMMODITIES ! 1)) = Some p \<and>
        basePrice (COMMODITIES ! 1) * (1 / 10) \<le> currentPrice p)"
proof -
  have runA: "ticks tickA [lowDraws, lowDraws] (gasCrashApp INITIAL_TAX_RATE_A) \<noteq> None"
    using gas_runA by auto
  then have someA: "ticks tickA [lowDraws, lowDraws] (gasCrashApp INITIAL_TAX_RATE_A)
      = Some (the (ticks tickA [lowDraws, lowDraws] (gasCrashApp INITIAL_TAX_RATE_A)))"
    by simp
  have runB: "ticks tickB [lowDraws, lowDraws] (gasCrashApp INITIAL_TAX_RATE_B) \<noteq> None"
    using gas_runB by auto
  then have someB: "ticks tickB [lowDraws, lowDraws] (gasCrashApp INITIAL_TAX_RATE_B)
      = Some (the (ticks tickB [lowDraws, lowDraws] (gasCrashApp INITIAL_TAX_RATE_B)))"
    by simp
  have mem: "COMMODITIES ! 1 \<in> set COMMODITIES" by (simp add: COMMODITIES_def)
  have gas: "id_c (COMMODITIES ! 1) = ''gas'' \<and> basePrice (COMMODITIES ! 1) * (1 / 10) = 4 / 10"
    by (simp add: COMMODITIES_def)
  have ne: "[lowDraws, lowDraws] \<noteq> []" by simp
  have a: "\<exists>p. prices (gameState (the (ticks tickA [lowDraws, lowDraws] (gasCrashApp INITIAL_TAX_RATE_A))))
           (id_c (COMMODITIES ! 1)) = Some p \<and>
        basePrice (COMMODITIES ! 1) * (1 / 10) \<le> currentPrice p"
    by (rule price_floor_after_ticks [OF disjI1 [OF someA] ne mem])
  have b: "\<exists>p. prices (gameState (the (ticks tickB [lowDraws, lowDraws] (gasCrashApp INITIAL_TAX_RATE_B))))
           (id_c (COMMODITIES ! 1)) = Some p \<and>
        basePrice (COMMODITIES ! 1) * (1 / 10) \<le> currentPrice p"
    by (rule price_floor_after_ticks [OF disjI2 [OF someB] ne mem])
  from runA runB ne mem gas a b show ?thesis by blast
qed

subsection \<open>C4: rejection of invalid input, and repayment\<close>

text \<open>
  C4. The claim says that a repayment with an amount outside \<open>[0, min(cash, debt)]\<close>
  leaves cash and debt unchanged. The code computes that bound (\<open>maxRepayable\<close>) and
  gives it to the slider, and the other handlers test their input again inside the
  updater, but \<open>handleRepay\<close> subtracts the stored amount with no test. The amount goes
  out of range in ordinary play: with cash 10000 and debt 5000 the slider is moved to
  5000, which is in range; buying 4 gold at 2000 leaves cash 2000, so the bound is now
  2000 while the stored amount is still 5000; the repayment then leaves cash -3000 and
  debt 0 instead of the state unchanged. Both variants do so.
\<close>

theorem repay_out_of_range:
  "0 \<le> repayAmount (staleSliderApp INITIAL_TAX_RATE_A) \<and>
   repayAmount (staleSliderApp INITIAL_TAX_RATE_A) \<le> maxRepayable (staleSliderApp INITIAL_TAX_RATE_A) \<and>
   handleTradeA ''gold'' 4 (staleSliderApp INITIAL_TAX_RATE_A) \<noteq> None \<and>
   \<not> isPaused (the (handleTradeA ''gold'' 4 (staleSliderApp INITIAL_TAX_RATE_A))) \<and>
   cash (gameState (the (handleTradeA ''gold'' 4 (staleSliderApp INITIAL_TAX_RATE_A)))) = 2000 \<and>
   debt (gameState (the (handleTradeA ''gold'' 4 (staleSliderApp INITIAL_TAX_RATE_A)))) = 5000 \<and>
   maxRepayable (the (handleTradeA ''gold'' 4 (staleSliderApp INITIAL_TAX_RATE_A))) = 2000 \<and>
   repayAmount (the (handleTradeA ''gold'' 4 (staleSliderApp INITIAL_TAX_RATE_A))) = 5000 \<and>
   cash (gameState (handleRepayA
     (the (handleTradeA ''gold'' 4 (staleSliderApp INITIAL_TAX_RATE_A))))) = - 3000 \<and>
   debt (gameState (handleRepayA
     (the (handleTradeA ''gold'' 4 (staleSliderApp INITIAL_TAX_RATE_A))))) = 0 \<and>
   handleTradeB ''gold'' 4 (staleSliderApp INITIAL_TAX_RATE_B) \<noteq> None \<and>
   maxRepayable (the (handleTradeB ''gold'' 4 (staleSliderApp INITIAL_TAX_RATE_B))) = 2000 \<and>
   repayAmount (the (handleTradeB ''gold'' 4 (staleSliderApp INITIAL_TAX_RATE_B))) = 5000 \<and>
   cash (gameState (handleRepayB
     (the (handleTradeB ''gold'' 4 (staleSliderApp INITIAL_TAX_RATE_B))))) = - 3000 \<and>
   debt (gameState (handleRepayB
     (the (handleTradeB ''gold'' 4 (staleSliderApp INITIAL_TAX_RATE_B))))) = 0"
  by (simp add: staleSliderApp_def setRepayAmount_def indebtedApp_def maxRepayable_def
      handleTradeA_def handleTradeB_def tradeUpdater_def Let_def
      handleRepayA_def handleRepayB_def repayUpdater_def action_eval)

text \<open>
  The same on a state given directly: cash 50, debt 200 and 100 on the slider leave
  cash -50 and debt 100 in either variant.
\<close>

lemma repay_overdrawn:
  "\<not> isPaused overdrawnApp \<and>
   maxRepayable overdrawnApp = 50 \<and> repayAmount overdrawnApp = 100 \<and>
   cash (gameState overdrawnApp) = 50 \<and> debt (gameState overdrawnApp) = 200 \<and>
   cash (gameState (handleRepayA overdrawnApp)) = - 50 \<and>
   debt (gameState (handleRepayA overdrawnApp)) = 100 \<and>
   cash (gameState (handleRepayB overdrawnApp)) = - 50 \<and>
   debt (gameState (handleRepayB overdrawnApp)) = 100"
  by (simp add: overdrawnApp_def maxRepayable_def handleRepayA_def handleRepayB_def
      repayUpdater_def initialApp_def initialGameState_def INITIAL_CASH_def)

text \<open>
  What the handlers do in general. \<open>handleRepay\<close> decreases cash and debt by the stored
  amount, whatever it is (variant A does nothing while paused), so a repayment in range
  decreases both by exactly the amount, as the claim says. The other mutators test their
  input in the updater and return the state unchanged when the test fails: a purchase
  that costs more than the cash, a sale of more than is held or of a commodity without
  an inventory entry, unlocking with too little cash or where a facility exists,
  upgrading where no facility exists or with too little cash, selling a facility or
  toggling production where no facility exists. Every one of them returns a state (does
  not throw) for a commodity of the catalog that has a price.
\<close>

lemma repay_unchecked:
  "cash (gameState (handleRepayB app)) = cash (gameState app) - repayAmount app \<and>
   debt (gameState (handleRepayB app)) = debt (gameState app) - repayAmount app \<and>
   (\<not> isPaused app \<longrightarrow>
      cash (gameState (handleRepayA app)) = cash (gameState app) - repayAmount app \<and>
      debt (gameState (handleRepayA app)) = debt (gameState app) - repayAmount app) \<and>
   (isPaused app \<longrightarrow> handleRepayA app = app) \<and>
   (prices (gameState app) i = Some mp \<and>
    ((0 < q \<and> cash (gameState app) < of_int q * currentPrice mp) \<or>
     (q < 0 \<and> (case owned (gameState app) i of None \<Rightarrow> True | Some n \<Rightarrow> n < \<bar>q\<bar>))) \<longrightarrow>
      handleTradeA i q app = Some app \<and> handleTradeB i q app = Some app) \<and>
   (findCommodity i = Some c \<and>
    (cash (gameState app) < basePrice c * 25 \<or>
     (\<exists>f \<in> set (facilities (gameState app)). commodityId_f f = i)) \<longrightarrow>
      handleUnlockFacilityA i app = Some app \<and> handleUnlockFacilityB i app = Some app) \<and>
   (find (\<lambda>f. commodityId_f f = i) (facilities (gameState app)) = None \<or>
    (\<exists>f c. find (\<lambda>f. commodityId_f f = i) (facilities (gameState app)) = Some f \<and>
           findCommodity i = Some c \<and>
           cash (gameState app) < real_of_int \<lfloor>basePrice c * 25 * ((18 / 10) powi level f)\<rfloor>) \<longrightarrow>
      handleUpgradeFacilityA i app = Some app \<and> handleUpgradeFacilityB i app = Some app) \<and>
   (find (\<lambda>f. commodityId_f f = i) (facilities (gameState app)) = None \<longrightarrow>
      handleSellFacilityA i app = Some app \<and>
      handleToggleProductionA i app = app \<and> handleToggleProductionB i app = app) \<and>
   (prices (gameState app) i = Some mp \<longrightarrow>
      handleTradeA i q app \<noteq> None \<and> handleTradeB i q app \<noteq> None) \<and>
   (findCommodity i = Some c \<longrightarrow>
      handleUnlockFacilityA i app \<noteq> None \<and> handleUnlockFacilityB i app \<noteq> None \<and>
      handleUpgradeFacilityA i app \<noteq> None \<and> handleUpgradeFacilityB i app \<noteq> None \<and>
      handleSellFacilityA i app \<noteq> None)"
proof -
  have repay: "cash (gameState (handleRepayB app)) = cash (gameState app) - repayAmount app \<and>
      debt (gameState (handleRepayB app)) = debt (gameState app) - repayAmount app \<and>
      (\<not> isPaused app \<longrightarrow>
        cash (gameState (handleRepayA app)) = cash (gameState app) - repayAmount app \<and>
        debt (gameState (handleRepayA app)) = debt (gameState app) - repayAmount app) \<and>
      (isPaused app \<longrightarrow> handleRepayA app = app)"
    by (simp add: handleRepayA_def handleRepayB_def repayUpdater_def)
  have trade: "prices (gameState app) i = Some mp \<and>
    ((0 < q \<and> cash (gameState app) < of_int q * currentPrice mp) \<or>
     (q < 0 \<and> (case owned (gameState app) i of None \<Rightarrow> True | Some n \<Rightarrow> n < \<bar>q\<bar>))) \<longrightarrow>
      handleTradeA i q app = Some app \<and> handleTradeB i q app = Some app"
    using tradeUpdater_reject [of app i mp q]
    by (auto simp: handleTradeA_def handleTradeB_def)
  have unlock: "findCommodity i = Some c \<and>
    (cash (gameState app) < basePrice c * 25 \<or>
     (\<exists>f \<in> set (facilities (gameState app)). commodityId_f f = i)) \<longrightarrow>
      handleUnlockFacilityA i app = Some app \<and> handleUnlockFacilityB i app = Some app"
    by (auto simp: handleUnlockFacilityA_def handleUnlockFacilityB_def unlockUpdater_def)
  have upgrade: "find (\<lambda>f. commodityId_f f = i) (facilities (gameState app)) = None \<or>
    (\<exists>f c. find (\<lambda>f. commodityId_f f = i) (facilities (gameState app)) = Some f \<and>
           findCommodity i = Some c \<and>
           cash (gameState app) < real_of_int \<lfloor>basePrice c * 25 * ((18 / 10) powi level f)\<rfloor>) \<longrightarrow>
      handleUpgradeFacilityA i app = Some app \<and> handleUpgradeFacilityB i app = Some app"
    by (auto simp: handleUpgradeFacilityA_def handleUpgradeFacilityB_def upgradeUpdater_def Let_def)
  from repay trade unlock upgrade no_facility_rejections [of i app]
    mutators_return [of app i mp q c]
  show ?thesis by blast
qed

text \<open>
  With cash 50 and debt 200: a repayment of 30 leaves 20 and 170, one of 100 leaves -50
  and 100, and a paused game leaves everything; buying 100 oil, unlocking the oil
  facility and upgrading it (there is none) are all rejected.
\<close>

lemma repay_unchecked_instances:
  "\<not> isPaused overdrawnApp \<and> \<not> isPaused repayingApp \<and> isPaused pausedOverdrawnApp \<and>
   repayAmount repayingApp \<le> maxRepayable repayingApp \<and>
   cash (gameState (handleRepayA repayingApp)) = 20 \<and>
   debt (gameState (handleRepayA repayingApp)) = 170 \<and>
   maxRepayable overdrawnApp < repayAmount overdrawnApp \<and>
   cash (gameState (handleRepayA overdrawnApp)) = - 50 \<and>
   debt (gameState (handleRepayA overdrawnApp)) = 100 \<and>
   handleRepayA pausedOverdrawnApp = pausedOverdrawnApp \<and>
   handleTradeA ''oil'' 100 overdrawnApp = Some overdrawnApp \<and>
   handleTradeB ''oil'' 100 overdrawnApp = Some overdrawnApp \<and>
   handleUnlockFacilityA ''oil'' overdrawnApp = Some overdrawnApp \<and>
   handleUpgradeFacilityA ''oil'' overdrawnApp = Some overdrawnApp \<and>
   handleSellFacilityA ''oil'' overdrawnApp = Some overdrawnApp"
proof -
  note f = overdrawn_facts
  note g = repaying_facts
  let ?mp = "\<lparr>id_p = ''oil'', currentPrice = 80, history = [80], trend = stable\<rparr>"
  have flags: "\<not> isPaused overdrawnApp \<and> \<not> isPaused repayingApp \<and> isPaused pausedOverdrawnApp"
    using f g by simp
  have range: "repayAmount repayingApp \<le> maxRepayable repayingApp \<and>
      maxRepayable overdrawnApp < repayAmount overdrawnApp"
    using f g by simp
  have poor: "cash (gameState overdrawnApp) < of_int 100 * currentPrice ?mp \<and>
      cash (gameState overdrawnApp) < basePrice (COMMODITIES ! 0) * 25"
    using f by simp
  from repay_unchecked [of repayingApp "''oil''" ?mp 100 "COMMODITIES ! 0"] g
  have valid: "cash (gameState (handleRepayA repayingApp)) = 20 \<and>
      debt (gameState (handleRepayA repayingApp)) = 170"
    by simp
  from repay_unchecked [of pausedOverdrawnApp "''oil''" ?mp 100 "COMMODITIES ! 0"] f
  have paused: "handleRepayA pausedOverdrawnApp = pausedOverdrawnApp"
    by blast
  from repay_unchecked [of overdrawnApp "''oil''" ?mp 100 "COMMODITIES ! 0"] f
  have invalid: "cash (gameState (handleRepayA overdrawnApp)) = - 50 \<and>
      debt (gameState (handleRepayA overdrawnApp)) = 100"
    by simp
  from repay_unchecked [of overdrawnApp "''oil''" ?mp 100 "COMMODITIES ! 0"] f poor
  have rejected: "handleTradeA ''oil'' 100 overdrawnApp = Some overdrawnApp \<and>
      handleTradeB ''oil'' 100 overdrawnApp = Some overdrawnApp \<and>
      handleUnlockFacilityA ''oil'' overdrawnApp = Some overdrawnApp \<and>
      handleUpgradeFacilityA ''oil'' overdrawnApp = Some overdrawnApp \<and>
      handleSellFacilityA ''oil'' overdrawnApp = Some overdrawnApp"
    by simp
  from flags range valid paused invalid rejected show ?thesis by blast
qed

subsection \<open>C5: one loan at a time\<close>

text \<open>
  Variant B does not do what C5 says. With a loan of 5000 outstanding, \<open>takeLoan(5000)\<close>
  of variant B is not rejected: the debt becomes 10000.
\<close>

theorem second_loan_counterexample:
  "0 < debt (gameState (indebtedApp INITIAL_TAX_RATE_B)) \<and>
   takeLoanB 5000 (indebtedApp INITIAL_TAX_RATE_B) \<noteq> indebtedApp INITIAL_TAX_RATE_B \<and>
   debt (gameState (indebtedApp INITIAL_TAX_RATE_B)) = 5000 \<and>
   debt (gameState (takeLoanB 5000 (indebtedApp INITIAL_TAX_RATE_B))) = 10000"
proof -
  have d: "debt (gameState (indebtedApp INITIAL_TAX_RATE_B)) = 5000"
    by (simp add: indebtedApp_def)
  have d': "debt (gameState (takeLoanB 5000 (indebtedApp INITIAL_TAX_RATE_B))) = 10000"
    by (simp add: indebtedApp_def takeLoanB_def loanUpdater_def)
  from d d' have "takeLoanB 5000 (indebtedApp INITIAL_TAX_RATE_B) \<noteq> indebtedApp INITIAL_TAX_RATE_B"
    by auto
  with d d' show ?thesis by simp
qed

text \<open>
  C5, as amended. In variant A \<open>takeLoan\<close> is rejected (state returned unchanged) whenever
  the outstanding debt is positive, or the game is paused, so at most one loan is
  outstanding at a time, and an accepted loan increases cash and debt by exactly the
  requested amount. In variant B \<open>takeLoan\<close> has no test: every call increases cash and
  debt by exactly the requested amount, also while a loan is outstanding.
\<close>

theorem loan_guard:
  "(0 < debt (gameState app) \<or> isPaused app \<longrightarrow> takeLoanA amount app = app) \<and>
   (\<not> 0 < debt (gameState app) \<and> \<not> isPaused app \<longrightarrow>
      cash (gameState (takeLoanA amount app)) = cash (gameState app) + amount \<and>
      debt (gameState (takeLoanA amount app)) = debt (gameState app) + amount) \<and>
   cash (gameState (takeLoanB amount app)) = cash (gameState app) + amount \<and>
   debt (gameState (takeLoanB amount app)) = debt (gameState app) + amount"
  by (simp add: takeLoanA_def takeLoanB_def loanUpdater_def)

text \<open>
  A second loan of 5000 is refused by variant A; a first one from the initial state
  gives cash 10000 and debt 5000.
\<close>

theorem loan_guard_witness:
  "0 < debt (gameState (indebtedApp INITIAL_TAX_RATE_A)) \<and>
   takeLoanA 5000 (indebtedApp INITIAL_TAX_RATE_A) = indebtedApp INITIAL_TAX_RATE_A \<and>
   \<not> 0 < debt (gameState (initialApp INITIAL_TAX_RATE_A)) \<and>
   \<not> isPaused (initialApp INITIAL_TAX_RATE_A) \<and>
   cash (gameState (takeLoanA 5000 (initialApp INITIAL_TAX_RATE_A))) = 10000 \<and>
   debt (gameState (takeLoanA 5000 (initialApp INITIAL_TAX_RATE_A))) = 5000"
proof -
  have owing: "0 < debt (gameState (indebtedApp INITIAL_TAX_RATE_A))"
    by (simp add: indebtedApp_def)
  have fresh: "\<not> 0 < debt (gameState (initialApp INITIAL_TAX_RATE_A)) \<and>
      \<not> isPaused (initialApp INITIAL_TAX_RATE_A) \<and>
      cash (gameState (initialApp INITIAL_TAX_RATE_A)) = 5000 \<and>
      debt (gameState (initialApp INITIAL_TAX_RATE_A)) = 0"
    by (simp add: action_eval)
  from loan_guard [of "indebtedApp INITIAL_TAX_RATE_A" 5000] owing
  have refused: "takeLoanA 5000 (indebtedApp INITIAL_TAX_RATE_A) = indebtedApp INITIAL_TAX_RATE_A"
    by blast
  from loan_guard [of "initialApp INITIAL_TAX_RATE_A" 5000] fresh
  have granted: "cash (gameState (takeLoanA 5000 (initialApp INITIAL_TAX_RATE_A))) = 10000 \<and>
      debt (gameState (takeLoanA 5000 (initialApp INITIAL_TAX_RATE_A))) = 5000"
    by simp
  from owing fresh refused granted show ?thesis by blast
qed

subsection \<open>C6: compounding of the debt\<close>

text \<open>
  C6. After a run of \<open>n\<close> ticks of either variant, with no loan or repayment in between,
  the debt is the initial debt times \<open>1.015 ^ n\<close>: each tick adds \<open>debt * 0.015\<close> to the
  debt, which changes nothing at zero debt. Trades and facility actions between the
  ticks do not touch the debt (\<open>actions_keep_debt\<close>).
\<close>

theorem debt_compounds:
  "(ticks tickA rs app = Some app' \<longrightarrow>
      debt (gameState app') = debt (gameState app) * (1015 / 1000) ^ length rs) \<and>
   (ticks tickB rs app = Some app' \<longrightarrow>
      debt (gameState app') = debt (gameState app) * (1015 / 1000) ^ length rs)"
  using ticks_debt [of tickA rs app app'] ticks_debt [of tickB rs app app'] tickA_debt tickB_debt
  by blast

text \<open>A debt of 2000 over two ticks becomes 2000 * 1.015 * 1.015 = 2060.45.\<close>

theorem debt_compounds_witness:
  "ticks tickA [calmDraws, lowDraws] (strainedApp INITIAL_TAX_RATE_A) \<noteq> None \<and>
   ticks tickB [calmDraws, lowDraws] (strainedApp INITIAL_TAX_RATE_B) \<noteq> None \<and>
   debt (gameState (the (ticks tickA [calmDraws, lowDraws] (strainedApp INITIAL_TAX_RATE_A))))
     = debt (gameState (strainedApp INITIAL_TAX_RATE_A)) * (1015 / 1000) ^ length [calmDraws, lowDraws] \<and>
   debt (gameState (the (ticks tickB [calmDraws, lowDraws] (strainedApp INITIAL_TAX_RATE_B))))
     = debt (gameState (strainedApp INITIAL_TAX_RATE_B)) * (1015 / 1000) ^ length [calmDraws, lowDraws] \<and>
   debt (gameState (strainedApp INITIAL_TAX_RATE_A)) = 2000"
proof -
  have runA: "ticks tickA [calmDraws, lowDraws] (strainedApp INITIAL_TAX_RATE_A) \<noteq> None"
    using strained_runA by auto
  then have someA: "ticks tickA [calmDraws, lowDraws] (strainedApp INITIAL_TAX_RATE_A)
      = Some (the (ticks tickA [calmDraws, lowDraws] (strainedApp INITIAL_TAX_RATE_A)))"
    by simp
  have runB: "ticks tickB [calmDraws, lowDraws] (strainedApp INITIAL_TAX_RATE_B) \<noteq> None"
    using strained_runB by auto
  then have someB: "ticks tickB [calmDraws, lowDraws] (strainedApp INITIAL_TAX_RATE_B)
      = Some (the (ticks tickB [calmDraws, lowDraws] (strainedApp INITIAL_TAX_RATE_B)))"
    by simp
  have d0: "debt (gameState (strainedApp INITIAL_TAX_RATE_A)) = 2000"
    by (simp add: strainedApp_def)
  from debt_compounds [of "[calmDraws, lowDraws]" "strainedApp INITIAL_TAX_RATE_A"
      "the (ticks tickA [calmDraws, lowDraws] (strainedApp INITIAL_TAX_RATE_A))"] someA
  have a: "debt (gameState (the (ticks tickA [calmDraws, lowDraws] (strainedApp INITIAL_TAX_RATE_A))))
     = debt (gameState (strainedApp INITIAL_TAX_RATE_A)) * (1015 / 1000) ^ length [calmDraws, lowDraws]"
    by blast
  from debt_compounds [of "[calmDraws, lowDraws]" "strainedApp INITIAL_TAX_RATE_B"
      "the (ticks tickB [calmDraws, lowDraws] (strainedApp INITIAL_TAX_RATE_B))"] someB
  have b: "debt (gameState (the (ticks tickB [calmDraws, lowDraws] (strainedApp INITIAL_TAX_RATE_B))))
     = debt (gameState (strainedApp INITIAL_TAX_RATE_B)) * (1015 / 1000) ^ length [calmDraws, lowDraws]"
    by blast
  from runA runB a b d0 show ?thesis by blast
qed

subsection \<open>C7: production progress and yield\<close>

text \<open>
  C7. After a tick of either variant the list of facilities has the same length, and
  facility by facility: a progress in \<open>[0, 100)\<close> before the tick (for a level that is
  not negative) is again in \<open>[0, 100)\<close> after it, and the units added to the inventory on
  behalf of the facility are none or one production yield of its commodity, whatever the
  size of the increment \<open>5 + level * 10\<close>; the units held after the tick are the units
  held before plus these credits.
\<close>

theorem production_progress_and_credit:
  assumes "tickA rnd app = Some app' \<or> tickB rnd app = Some app'"
  shows "\<exists>ds. length (facilities (gameState app')) = length (facilities (gameState app)) \<and>
              length ds = length (facilities (gameState app)) \<and>
              (\<forall>k < length (facilities (gameState app)).
                 facilityStep (facilities (gameState app) ! k)
                   (facilities (gameState app') ! k, ds ! k)) \<and>
              totalQuantity (inventory (gameState app')) =
                totalQuantity (inventory (gameState app)) + sum_list ds"
proof -
  from assms obtain h cost
    where "produceAll h (inventory (gameState app), [], 0) (facilities (gameState app))
           = Some (inventory (gameState app'), facilities (gameState app'), cost)"
    using tickA_production tickB_production by blast
  from produceAll_steps [OF this] obtain gds
    where facs: "facilities (gameState app') = map fst gds"
      and rel: "list_all2 facilityStep (facilities (gameState app)) gds"
      and total: "totalQuantity (inventory (gameState app')) =
                  totalQuantity (inventory (gameState app)) + sum_list (map snd gds)"
    by auto
  from rel have len: "length gds = length (facilities (gameState app))"
    by (simp add: list_all2_lengthD)
  have "\<forall>k < length (facilities (gameState app)).
          facilityStep (facilities (gameState app) ! k) (map fst gds ! k, map snd gds ! k)"
    using rel len by (auto dest: list_all2_nthD)
  with facs len total show ?thesis
    by (intro exI [of _ "map snd gds"]) simp
qed

text \<open>
  An oil facility at level 20 and progress 50: the increment is 205, the progress after
  the tick is 55 and 10 units (one yield of oil) are credited, not two.
\<close>

theorem production_progress_and_credit_witness:
  "tickA calmDraws (fastFactoryApp INITIAL_TAX_RATE_A) \<noteq> None \<and>
   tickB calmDraws (fastFactoryApp INITIAL_TAX_RATE_B) \<noteq> None \<and>
   map progress (facilities (gameState (fastFactoryApp INITIAL_TAX_RATE_A))) = [50] \<and>
   map level (facilities (gameState (fastFactoryApp INITIAL_TAX_RATE_A))) = [20] \<and>
   map progress (facilities (gameState (the (tickA calmDraws (fastFactoryApp INITIAL_TAX_RATE_A))))) = [55] \<and>
   map progress (facilities (gameState (the (tickB calmDraws (fastFactoryApp INITIAL_TAX_RATE_B))))) = [55] \<and>
   totalQuantity (inventory (gameState (fastFactoryApp INITIAL_TAX_RATE_A))) = 0 \<and>
   totalQuantity (inventory (gameState (the (tickA calmDraws (fastFactoryApp INITIAL_TAX_RATE_A))))) = 10 \<and>
   totalQuantity (inventory (gameState (the (tickB calmDraws (fastFactoryApp INITIAL_TAX_RATE_B))))) = 10 \<and>
   (\<exists>ds. length (facilities (gameState (the (tickA calmDraws (fastFactoryApp INITIAL_TAX_RATE_A)))))
            = length (facilities (gameState (fastFactoryApp INITIAL_TAX_RATE_A))) \<and>
         length ds = length (facilities (gameState (fastFactoryApp INITIAL_TAX_RATE_A))) \<and>
         (\<forall>k < length (facilities (gameState (fastFactoryApp INITIAL_TAX_RATE_A))).
            facilityStep (facilities (gameState (fastFactoryApp INITIAL_TAX_RATE_A)) ! k)
              (facilities (gameState (the (tickA calmDraws (fastFactoryApp INITIAL_TAX_RATE_A)))) ! k, ds ! k)) \<and>
         totalQuantity (inventory (gameState (the (tickA calmDraws (fastFactoryApp INITIAL_TAX_RATE_A))))) =
           totalQuantity (inventory (gameState (fastFactoryApp INITIAL_TAX_RATE_A))) + sum_list ds)"
proof -
  have runA: "tickA calmDraws (fastFactoryApp INITIAL_TAX_RATE_A) \<noteq> None"
    using factory_runA by auto
  then have someA: "tickA calmDraws (fastFactoryApp INITIAL_TAX_RATE_A)
      = Some (the (tickA calmDraws (fastFactoryApp INITIAL_TAX_RATE_A)))"
    by simp
  have runB: "tickB calmDraws (fastFactoryApp INITIAL_TAX_RATE_B) \<noteq> None"
    using factory_runB by auto
  have before: "map progress (facilities (gameState (fastFactoryApp INITIAL_TAX_RATE_A))) = [50] \<and>
      map level (facilities (gameState (fastFactoryApp INITIAL_TAX_RATE_A))) = [20] \<and>
      totalQuantity (inventory (gameState (fastFactoryApp INITIAL_TAX_RATE_A))) = 0"
    by (simp add: fastFactoryApp_def action_eval totalQuantity_def)
  have afterA: "map progress (facilities (gameState (the (tickA calmDraws (fastFactoryApp INITIAL_TAX_RATE_A))))) = [55] \<and>
      totalQuantity (inventory (gameState (the (tickA calmDraws (fastFactoryApp INITIAL_TAX_RATE_A))))) = 10"
    using factory_runA by auto
  have afterB: "map progress (facilities (gameState (the (tickB calmDraws (fastFactoryApp INITIAL_TAX_RATE_B))))) = [55] \<and>
      totalQuantity (inventory (gameState (the (tickB calmDraws (fastFactoryApp INITIAL_TAX_RATE_B))))) = 10"
    using factory_runB by auto
  note production_progress_and_credit [OF disjI1 [OF someA]]
  with runA runB before afterA afterB show ?thesis by blast
qed

subsection \<open>C8: unlocking a facility\<close>

text \<open>
  C8. For a commodity of the catalog (and, in variant A, a game that is not paused),
  unlocking costs \<open>basePrice * 25\<close>: it returns the state unchanged when the cash is below
  the cost or a facility for the commodity exists, and otherwise debits the cost and
  appends a facility with level 1, producing, progress 0. From the initial cash of 5000,
  unlocking the oil facility (base price 80, cost 2000) leaves cash 3000 and that one
  facility.
\<close>

theorem unlock_facility:
  "(((handleUnlock = handleUnlockFacilityA \<and> \<not> isPaused app) \<or>
     handleUnlock = handleUnlockFacilityB) \<and>
    findCommodity i = Some c \<longrightarrow>
      (cash (gameState app) < basePrice c * 25 \<or>
       (\<exists>f \<in> set (facilities (gameState app)). commodityId_f f = i)
         \<longrightarrow> handleUnlock i app = Some app) \<and>
      (\<not> cash (gameState app) < basePrice c * 25 \<and>
       \<not> (\<exists>f \<in> set (facilities (gameState app)). commodityId_f f = i)
         \<longrightarrow> (\<exists>app'. handleUnlock i app = Some app' \<and>
               cash (gameState app') = cash (gameState app) - basePrice c * 25 \<and>
               facilities (gameState app') = facilities (gameState app) @
                 [\<lparr>commodityId_f = i, level = 1, isProducing = True, progress = 0\<rparr>]))) \<and>
   map_option basePrice (findCommodity ''oil'') = Some 80 \<and>
   cash (gameState (initialApp INITIAL_TAX_RATE_A)) = 5000 \<and>
   map_option (\<lambda>a. (cash (gameState a), facilities (gameState a)))
     (handleUnlockFacilityA ''oil'' (initialApp INITIAL_TAX_RATE_A))
   = Some (3000, [\<lparr>commodityId_f = ''oil'', level = 1, isProducing = True, progress = 0\<rparr>])"
proof -
  have general: "((handleUnlock = handleUnlockFacilityA \<and> \<not> isPaused app) \<or>
     handleUnlock = handleUnlockFacilityB) \<and>
    findCommodity i = Some c \<longrightarrow>
      (cash (gameState app) < basePrice c * 25 \<or>
       (\<exists>f \<in> set (facilities (gameState app)). commodityId_f f = i)
         \<longrightarrow> handleUnlock i app = Some app) \<and>
      (\<not> cash (gameState app) < basePrice c * 25 \<and>
       \<not> (\<exists>f \<in> set (facilities (gameState app)). commodityId_f f = i)
         \<longrightarrow> (\<exists>app'. handleUnlock i app = Some app' \<and>
               cash (gameState app') = cash (gameState app) - basePrice c * 25 \<and>
               facilities (gameState app') = facilities (gameState app) @
                 [\<lparr>commodityId_f = i, level = 1, isProducing = True, progress = 0\<rparr>]))"
    by (auto simp: handleUnlockFacilityA_def handleUnlockFacilityB_def unlockUpdater_def)
  have scenario: "map_option basePrice (findCommodity ''oil'') = Some 80 \<and>
      cash (gameState (initialApp INITIAL_TAX_RATE_A)) = 5000 \<and>
      map_option (\<lambda>a. (cash (gameState a), facilities (gameState a)))
        (handleUnlockFacilityA ''oil'' (initialApp INITIAL_TAX_RATE_A))
      = Some (3000, [\<lparr>commodityId_f = ''oil'', level = 1, isProducing = True, progress = 0\<rparr>])"
    by (simp add: handleUnlockFacilityA_def unlockUpdater_def action_eval)
  from general scenario show ?thesis by blast
qed

text \<open>
  From the initial state the oil facility (cost 2000) is unlocked in both variants, and
  the gold facility (cost 50000) is refused.
\<close>

theorem unlock_facility_witness:
  "\<not> isPaused (initialApp INITIAL_TAX_RATE_A) \<and>
   findCommodity ''oil'' = Some (COMMODITIES ! 0) \<and>
   findCommodity ''gold'' = Some (COMMODITIES ! 2) \<and>
   \<not> cash (gameState (initialApp INITIAL_TAX_RATE_A)) < basePrice (COMMODITIES ! 0) * 25 \<and>
   cash (gameState (initialApp INITIAL_TAX_RATE_A)) < basePrice (COMMODITIES ! 2) * 25 \<and>
   \<not> (\<exists>f \<in> set (facilities (gameState (initialApp INITIAL_TAX_RATE_A))). commodityId_f f = ''oil'') \<and>
   handleUnlockFacilityA ''gold'' (initialApp INITIAL_TAX_RATE_A)
     = Some (initialApp INITIAL_TAX_RATE_A) \<and>
   (\<exists>app'. handleUnlockFacilityA ''oil'' (initialApp INITIAL_TAX_RATE_A) = Some app' \<and>
      cash (gameState app') = cash (gameState (initialApp INITIAL_TAX_RATE_A))
                              - basePrice (COMMODITIES ! 0) * 25 \<and>
      facilities (gameState app') = facilities (gameState (initialApp INITIAL_TAX_RATE_A)) @
        [\<lparr>commodityId_f = ''oil'', level = 1, isProducing = True, progress = 0\<rparr>]) \<and>
   (\<exists>app'. handleUnlockFacilityB ''oil'' (initialApp INITIAL_TAX_RATE_A) = Some app' \<and>
      cash (gameState app') = cash (gameState (initialApp INITIAL_TAX_RATE_A))
                              - basePrice (COMMODITIES ! 0) * 25 \<and>
      facilities (gameState app') = facilities (gameState (initialApp INITIAL_TAX_RATE_A)) @
        [\<lparr>commodityId_f = ''oil'', level = 1, isProducing = True, progress = 0\<rparr>])"
proof -
  have facts: "\<not> isPaused (initialApp INITIAL_TAX_RATE_A) \<and>
      findCommodity ''oil'' = Some (COMMODITIES ! 0) \<and>
      findCommodity ''gold'' = Some (COMMODITIES ! 2) \<and>
      \<not> cash (gameState (initialApp INITIAL_TAX_RATE_A)) < basePrice (COMMODITIES ! 0) * 25 \<and>
      cash (gameState (initialApp INITIAL_TAX_RATE_A)) < basePrice (COMMODITIES ! 2) * 25 \<and>
      \<not> (\<exists>f \<in> set (facilities (gameState (initialApp INITIAL_TAX_RATE_A))). commodityId_f f = ''oil'')"
    by (simp add: action_eval)
  from unlock_facility [of handleUnlockFacilityA "initialApp INITIAL_TAX_RATE_A" "''gold''"
      "COMMODITIES ! 2"] facts
  have refused: "handleUnlockFacilityA ''gold'' (initialApp INITIAL_TAX_RATE_A)
      = Some (initialApp INITIAL_TAX_RATE_A)"
    by blast
  from unlock_facility [of handleUnlockFacilityA "initialApp INITIAL_TAX_RATE_A" "''oil''"
      "COMMODITIES ! 0"] facts
  have builtA: "\<exists>app'. handleUnlockFacilityA ''oil'' (initialApp INITIAL_TAX_RATE_A) = Some app' \<and>
      cash (gameState app') = cash (gameState (initialApp INITIAL_TAX_RATE_A))
                              - basePrice (COMMODITIES ! 0) * 25 \<and>
      facilities (gameState app') = facilities (gameState (initialApp INITIAL_TAX_RATE_A)) @
        [\<lparr>commodityId_f = ''oil'', level = 1, isProducing = True, progress = 0\<rparr>]"
    by blast
  from unlock_facility [of handleUnlockFacilityB "initialApp INITIAL_TAX_RATE_A" "''oil''"
      "COMMODITIES ! 0"] facts
  have builtB: "\<exists>app'. handleUnlockFacilityB ''oil'' (initialApp INITIAL_TAX_RATE_A) = Some app' \<and>
      cash (gameState app') = cash (gameState (initialApp INITIAL_TAX_RATE_A))
                              - basePrice (COMMODITIES ! 0) * 25 \<and>
      facilities (gameState app') = facilities (gameState (initialApp INITIAL_TAX_RATE_A)) @
        [\<lparr>commodityId_f = ''oil'', level = 1, isProducing = True, progress = 0\<rparr>]"
    by blast
  from facts refused builtA builtB show ?thesis by blast
qed

subsection \<open>C9: the displayed price change\<close>

text \<open>
  C9. With at most one entry in the price history the label is \<open>0.00\<close>, the rendering of
  0, and no history entry is read; with two or more entries (and a prior price that is
  not 0) the label is the two-decimal rendering of
  \<open>(currentPrice - secondToLast) / secondToLast * 100\<close>, where \<open>secondToLast\<close> is the
  entry before the last.
\<close>

theorem price_change_label:
  "(length (history m) \<le> 1 \<longrightarrow> priceChange m = ''0.00'') \<and>
   (2 \<le> length (history m) \<and> history m ! (length (history m) - 2) \<noteq> 0 \<longrightarrow>
      priceChange m =
        toFixed2 ((currentPrice m - history m ! (length (history m) - 2)) /
                  history m ! (length (history m) - 2) * 100)) \<and>
   toFixed2 0 = ''0.00''"
  by (auto simp: priceChange_def Let_def toFixed2_def digits.simps digitChar_def)

text \<open>
  The initial oil price, with the one entry 80, shows 0.00; after a fall from 80 to 76
  the label is -5.00.
\<close>

theorem price_change_label_witness:
  "length (history \<lparr>id_p = ''oil'', currentPrice = 80, history = [80], trend = stable\<rparr>) \<le> 1 \<and>
   priceChange \<lparr>id_p = ''oil'', currentPrice = 80, history = [80], trend = stable\<rparr> = ''0.00'' \<and>
   2 \<le> length (history \<lparr>id_p = ''oil'', currentPrice = 76, history = [80, 76], trend = down\<rparr>) \<and>
   priceChange \<lparr>id_p = ''oil'', currentPrice = 76, history = [80, 76], trend = down\<rparr>
     = toFixed2 ((76 - 80) / 80 * 100) \<and>
   toFixed2 ((76 - 80) / 80 * 100) = ''-5.00''"
proof -
  let ?one = "\<lparr>id_p = ''oil'', currentPrice = 80, history = [80], trend = stable\<rparr>"
  let ?two = "\<lparr>id_p = ''oil'', currentPrice = 76, history = [80, 76], trend = down\<rparr>"
  have short: "length (history ?one) \<le> 1" by simp
  have long: "2 \<le> length (history ?two) \<and> history ?two ! (length (history ?two) - 2) \<noteq> 0"
    by simp
  from price_change_label [of ?one] short have a: "priceChange ?one = ''0.00''"
    by blast
  from price_change_label [of ?two] long
  have "priceChange ?two =
        toFixed2 ((currentPrice ?two - history ?two ! (length (history ?two) - 2)) /
                  history ?two ! (length (history ?two) - 2) * 100)"
    by blast
  then have b: "priceChange ?two = toFixed2 ((76 - 80) / 80 * 100)" by simp
  have c: "toFixed2 ((76 - 80) / 80 * 100) = ''-5.00''"
    by (simp add: toFixed2_def digits.simps digitChar_def)
  from short long a b c show ?thesis by blast
qed

subsection \<open>C10: cash after a tick of variant B\<close>

text \<open>
  C10. In variant B the cash of the state a tick returns is never negative, whatever the
  state before: the stored cash is the larger of 0 and the cash after tax less the day's
  production cost. The cash after tax is the first component of \<open>taxB\<close>; the day's
  production cost is what the tick adds to the lifetime production costs.
\<close>

theorem tickB_cash_nonnegative:
  "tickB rnd app = Some app' \<Longrightarrow>
   0 \<le> cash (gameState app') \<and>
   cash (gameState app') =
     max 0 (fst (taxB rnd (gameState app)) -
            (totalProductionCosts (lifetime (gameState app')) -
             totalProductionCosts (lifetime (gameState app))))"
  by (auto simp: tickB_def finishTick_def Let_def split: option.splits prod.splits)

text \<open>
  With cash 10 and a production cost of 50, variant B stores 0 where the difference
  is -40; variant A stores -40.
\<close>

theorem tickB_cash_nonnegative_witness:
  "map_option (\<lambda>a. cash (gameState a)) (tickB calmDraws (strainedApp INITIAL_TAX_RATE_B)) = Some 0 \<and>
   0 \<le> cash (gameState (the (tickB calmDraws (strainedApp INITIAL_TAX_RATE_B)))) \<and>
   map_option (\<lambda>a. cash (gameState a)) (tickA calmDraws (strainedApp INITIAL_TAX_RATE_A))
     = Some (- 40)"
proof -
  have "tickB calmDraws (strainedApp INITIAL_TAX_RATE_B) \<noteq> None"
    using strained_tickB by auto
  then have "tickB calmDraws (strainedApp INITIAL_TAX_RATE_B)
      = Some (the (tickB calmDraws (strainedApp INITIAL_TAX_RATE_B)))"
    by simp
  from tickB_cash_nonnegative [OF this] strained_tickB strained_tickA show ?thesis by blast
qed

end
